theory Spec2Isabelle
  imports Main "HOL-Library.Word"
begin

section \<open>Strings\<close>

text \<open>
  A JavaScript string is a sequence of 16-bit code units. String literals of the
  source are written \<open>str ''...''\<close>.
\<close>

type_synonym jschar = "16 word"
type_synonym jsstring = "jschar list"

definition str :: "string \<Rightarrow> jsstring" where
  "str s = map (\<lambda>c. of_nat (of_char c)) s"

datatype error = URIError

text \<open>Sequencing of computations that may throw: the first exception wins.\<close>

definition bindE :: "error + 'a \<Rightarrow> ('a \<Rightarrow> error + 'b) \<Rightarrow> error + 'b" where
  "bindE m f = (case m of Inl e \<Rightarrow> Inl e | Inr x \<Rightarrow> f x)"

section \<open>encodeURIComponent and decodeURIComponent\<close>

text \<open>
  The two built-in functions of the language, after the Encode and Decode operations
  of ECMAScript: code points are written in UTF-8, every octet as a percent sign and
  two hexadecimal digits. Both throw URIError.
\<close>

definition hexDigit :: "nat \<Rightarrow> jschar" where
  "hexDigit d = (if d < 10 then of_nat (48 + d) else of_nat (55 + d))"

definition hexValue :: "jschar \<Rightarrow> nat option" where
  "hexValue c =
     (let n = unat c in
      if 48 \<le> n \<and> n \<le> 57 then Some (n - 48)
      else if 65 \<le> n \<and> n \<le> 70 then Some (n - 55)
      else if 97 \<le> n \<and> n \<le> 102 then Some (n - 87)
      else None)"

fun parseHexOctet :: "jsstring \<Rightarrow> (nat \<times> jsstring) option" where
  "parseHexOctet (h # l # rest) =
     (case hexValue h of
        None \<Rightarrow> None
      | Some a \<Rightarrow> (case hexValue l of None \<Rightarrow> None | Some b \<Rightarrow> Some (16 * a + b, rest)))"
| "parseHexOctet _ = None"

definition percentOctet :: "nat \<Rightarrow> jsstring" where
  "percentOctet b = [0x25, hexDigit (b div 16), hexDigit (b mod 16)]"

definition utf8Encode :: "nat \<Rightarrow> nat list" where
  "utf8Encode v =
     (if v < 0x80 then [v]
      else if v < 0x800 then [0xC0 + v div 64, 0x80 + v mod 64]
      else if v < 0x10000 then [0xE0 + v div 4096, 0x80 + v div 64 mod 64, 0x80 + v mod 64]
      else [0xF0 + v div 262144, 0x80 + v div 4096 mod 64, 0x80 + v div 64 mod 64,
            0x80 + v mod 64])"

definition isContinuation :: "nat \<Rightarrow> bool" where
  "isContinuation b = (0x80 \<le> b \<and> b < 0xC0)"

text \<open>
  The code point of a multi-octet UTF-8 sequence; None when the octets are not the
  valid encoding of a code point (bad continuation octet, overlong form, surrogate,
  beyond U+10FFFF).
\<close>

fun utf8Decode :: "nat list \<Rightarrow> nat option" where
  "utf8Decode [b0, b1] =
     (let v = (b0 - 0xC0) * 64 + (b1 - 0x80) in
      if isContinuation b1 \<and> 0x80 \<le> v then Some v else None)"
| "utf8Decode [b0, b1, b2] =
     (let v = (b0 - 0xE0) * 4096 + (b1 - 0x80) * 64 + (b2 - 0x80) in
      if isContinuation b1 \<and> isContinuation b2 \<and> 0x800 \<le> v \<and> \<not> (0xD800 \<le> v \<and> v < 0xE000)
      then Some v else None)"
| "utf8Decode [b0, b1, b2, b3] =
     (let v = (b0 - 0xF0) * 262144 + (b1 - 0x80) * 4096 + (b2 - 0x80) * 64 + (b3 - 0x80) in
      if isContinuation b1 \<and> isContinuation b2 \<and> isContinuation b3 \<and> 0x10000 \<le> v \<and> v < 0x110000
      then Some v else None)"
| "utf8Decode _ = None"

text \<open>The number of leading one bits of an octet.\<close>

definition leadingOnes :: "nat \<Rightarrow> nat" where
  "leadingOnes b =
     (if b < 0x80 then 0 else if b < 0xC0 then 1 else if b < 0xE0 then 2
      else if b < 0xF0 then 3 else if b < 0xF8 then 4 else 5)"

definition utf16Encode :: "nat \<Rightarrow> jsstring" where
  "utf16Encode v =
     (if v < 0x10000 then [of_nat v]
      else [of_nat (0xD800 + (v - 0x10000) div 1024), of_nat (0xDC00 + (v - 0x10000) mod 1024)])"

definition isLeadSurrogate :: "jschar \<Rightarrow> bool" where
  "isLeadSurrogate c = (0xD800 \<le> unat c \<and> unat c < 0xDC00)"

definition isTrailSurrogate :: "jschar \<Rightarrow> bool" where
  "isTrailSurrogate c = (0xDC00 \<le> unat c \<and> unat c < 0xE000)"

text \<open>The characters encodeURIComponent leaves as they are: letters, digits and \<open>-_.!~*'()\<close>.\<close>

definition uriUnescaped :: "jschar \<Rightarrow> bool" where
  "uriUnescaped c =
     (let n = unat c in
      (65 \<le> n \<and> n \<le> 90) \<or> (97 \<le> n \<and> n \<le> 122) \<or> (48 \<le> n \<and> n \<le> 57)
      \<or> n \<in> {0x2D, 0x5F, 0x2E, 0x21, 0x7E, 0x2A, 0x27, 0x28, 0x29})"

definition percentEncode :: "nat \<Rightarrow> jsstring" where
  "percentEncode v = concat (map percentOctet (utf8Encode v))"

fun encodeURIComponent :: "jsstring \<Rightarrow> error + jsstring" where
  "encodeURIComponent [] = Inr []"
| "encodeURIComponent (c # cs) =
     (if uriUnescaped c then bindE (encodeURIComponent cs) (\<lambda>r. Inr (c # r))
      else if isTrailSurrogate c then Inl URIError
      else if isLeadSurrogate c then
        (case cs of
           [] \<Rightarrow> Inl URIError
         | d # ds \<Rightarrow>
             if isTrailSurrogate d
             then bindE (encodeURIComponent ds)
                    (\<lambda>r. Inr (percentEncode ((unat c - 0xD800) * 1024 + (unat d - 0xDC00) + 0x10000) @ r))
             else Inl URIError)
      else bindE (encodeURIComponent cs) (\<lambda>r. Inr (percentEncode (unat c) @ r)))"

text \<open>Reads \<open>n\<close> further escapes \<open>%XX\<close>; None when the input has anything else.\<close>

fun readOctets :: "nat \<Rightarrow> jsstring \<Rightarrow> (nat list \<times> jsstring) option" where
  "readOctets 0 s = Some ([], s)"
| "readOctets (Suc n) [] = None"
| "readOctets (Suc n) (c # cs) =
     (if c \<noteq> 0x25 then None
      else case parseHexOctet cs of
             None \<Rightarrow> None
           | Some (b, rest) \<Rightarrow>
               (case readOctets n rest of
                  None \<Rightarrow> None
                | Some (bs, rest') \<Rightarrow> Some (b # bs, rest')))"

lemma parseHexOctet_length:
  "parseHexOctet s = Some (b, rest) \<Longrightarrow> length s = length rest + 2"
  by (induction s rule: parseHexOctet.induct) (auto split: option.splits)

lemma readOctets_length:
  "readOctets n s = Some (bs, rest) \<Longrightarrow> length rest \<le> length s"
proof (induction n s arbitrary: bs rest rule: readOctets.induct)
  case (3 n c cs)
  then show ?case
    by (fastforce split: if_splits option.splits prod.splits dest: parseHexOctet_length)
qed auto

function decodeURIComponent :: "jsstring \<Rightarrow> error + jsstring" where
  "decodeURIComponent [] = Inr []"
| "decodeURIComponent (c # cs) =
     (if c \<noteq> 0x25 then bindE (decodeURIComponent cs) (\<lambda>r. Inr (c # r))
      else case parseHexOctet cs of
             None \<Rightarrow> Inl URIError
           | Some (b, rest) \<Rightarrow>
               if leadingOnes b = 0 then bindE (decodeURIComponent rest) (\<lambda>r. Inr (of_nat b # r))
               else if leadingOnes b = 1 \<or> 4 < leadingOnes b then Inl URIError
               else case readOctets (leadingOnes b - 1) rest of
                      None \<Rightarrow> Inl URIError
                    | Some (bs, rest') \<Rightarrow>
                        (case utf8Decode (b # bs) of
                           None \<Rightarrow> Inl URIError
                         | Some v \<Rightarrow>
                             bindE (decodeURIComponent rest') (\<lambda>r. Inr (utf16Encode v @ r))))"
  by pat_completeness auto
termination
proof (relation "measure length")
  show "wf (measure length)" by simp
next
  fix c :: jschar and cs show "(cs, c # cs) \<in> measure length" by simp
next
  fix c :: jschar and cs x2 b rest
  assume "parseHexOctet cs = Some x2" "(b, rest) = x2"
  then show "(rest, c # cs) \<in> measure length"
    by (auto dest: parseHexOctet_length)
next
  fix c :: jschar and cs x2 b rest x2a bs rest' v
  assume "parseHexOctet cs = Some x2" "(b, rest) = x2"
    "readOctets (leadingOnes b - 1) rest = Some x2a" "(bs, rest') = x2a"
  then show "(rest', c # cs) \<in> measure length"
    by (auto dest!: parseHexOctet_length readOctets_length)
qed

definition isEncoded :: "jsstring \<Rightarrow> bool" where
  "isEncoded s = (case decodeURIComponent s of Inl e \<Rightarrow> False | Inr d \<Rightarrow> s \<noteq> d)"

section \<open>Regular-expression passes over the markup\<close>

text \<open>
  The regular expressions of the source are written out as matchers. A matcher,
  given the input from the current position on, returns the length of the match
  that starts there. \<open>replaceMatches\<close> is \<open>String.prototype.replace\<close> with a
  global pattern and the empty replacement: scanning from the left, each match is
  dropped and the scan goes on behind it.
\<close>

fun replaceMatches :: "(jsstring \<Rightarrow> nat option) \<Rightarrow> jsstring \<Rightarrow> jsstring" where
  "replaceMatches m [] = []"
| "replaceMatches m (c # cs) =
     (case m (c # cs) of
        None \<Rightarrow> c # replaceMatches m cs
      | Some n \<Rightarrow> replaceMatches m (drop (n - 1) cs))"

text \<open>
  The pattern \<open>lit[^"]*"\<close> (\<open>least = 0\<close>) or \<open>lit[^"]+"\<close> (\<open>least = 1\<close>) at the
  head of the input: the literal, the longest run of characters other than the double
  quote, and a double quote.
\<close>

definition matchQuoted :: "jsstring \<Rightarrow> nat \<Rightarrow> jsstring \<Rightarrow> nat option" where
  "matchQuoted lit least s =
     (let r = drop (length lit) s; v = takeWhile (\<lambda>c. c \<noteq> 0x22) r in
      if take (length lit) s = lit \<and> least \<le> length v \<and> length v < length r
      then Some (length lit + length v + 1) else None)"

text \<open>\<^verbatim>\<open>rawHtml.replace(/(\r\n|\n|\r|\t)/gm, '')\<close>\<close>

definition trimWhitespace :: "jsstring \<Rightarrow> jsstring" where
  "trimWhitespace rawHtml = filter (\<lambda>c. c \<noteq> 0x0D \<and> c \<noteq> 0x0A \<and> c \<noteq> 0x09) rawHtml"

text \<open>\<^verbatim>\<open>/( data-slate)(-node|-type|-leaf)="[^"]+"/gm\<close>\<close>

definition matchSlateAttribute :: "jsstring \<Rightarrow> nat option" where
  \<open>matchSlateAttribute s =
     (case matchQuoted (str '' data-slate-node="'') 1 s of
        Some n \<Rightarrow> Some n
      | None \<Rightarrow>
          (case matchQuoted (str '' data-slate-type="'') 1 s of
             Some n \<Rightarrow> Some n
           | None \<Rightarrow> matchQuoted (str '' data-slate-leaf="'') 1 s))\<close>

text \<open>\<^verbatim>\<open>/( data-testid)="[^"]+"/gm\<close>\<close>

definition matchTestidAttribute :: "jsstring \<Rightarrow> nat option" where
  \<open>matchTestidAttribute s = matchQuoted (str '' data-testid="'') 1 s\<close>

definition stripSlateDataAttributes :: "jsstring \<Rightarrow> jsstring" where
  "stripSlateDataAttributes rawHtml =
     replaceMatches matchTestidAttribute (replaceMatches matchSlateAttribute rawHtml)"

text \<open>\<^verbatim>\<open>\s\<close> of the regular expressions: white space and line terminators.\<close>

definition isWhiteSpace :: "jschar \<Rightarrow> bool" where
  "isWhiteSpace c =
     (let n = unat c in
      n \<in> {0x09, 0x0A, 0x0B, 0x0C, 0x0D, 0x20, 0xA0, 0x1680, 0x2028, 0x2029, 0x202F, 0x205F,
           0x3000, 0xFEFF} \<or> (0x2000 \<le> n \<and> n \<le> 0x200A))"

text \<open>
  The source puts the prefixes of \<open>preserveClassNames\<close> into a regular expression as
  they are. A class-name prefix of the model is a string without the syntax characters
  of regular expressions \<^verbatim>\<open>^ $ \ . * + ? ( ) [ ] { } |\<close>, which in the
  pattern stands for itself; other prefixes are not values of the type.
\<close>

definition regExpSyntaxCharacter :: "jschar \<Rightarrow> bool" where
  "regExpSyntaxCharacter c =
     (c \<in> {0x5E, 0x24, 0x5C, 0x2E, 0x2A, 0x2B, 0x3F, 0x28, 0x29, 0x5B, 0x5D, 0x7B, 0x7D, 0x7C})"

typedef classPrefix = "{cn :: jsstring. \<forall>c \<in> set cn. \<not> regExpSyntaxCharacter c}"
  by (rule exI [of _ "[]"]) simp

text \<open>
  One alternative \<open>cn[^"\s]*\<close> of the preserve pattern at the head of the input;
  the first alternative that matches wins.
\<close>

fun matchPreserved :: "jsstring list \<Rightarrow> jsstring \<Rightarrow> jsstring option" where
  "matchPreserved [] s = None"
| "matchPreserved (cn # cns) s =
     (if take (length cn) s = cn
      then Some (cn @ takeWhile (\<lambda>c. c \<noteq> 0x22 \<and> \<not> isWhiteSpace c) (drop (length cn) s))
      else matchPreserved cns s)"

text \<open>
  \<open>item.match(preserveRegExp)\<close> with the global flag: all matches from the left,
  each search starting behind the previous match (one character further after an
  empty match).
\<close>

fun matchAllPreserved :: "jsstring list \<Rightarrow> jsstring \<Rightarrow> jsstring list" where
  "matchAllPreserved cns [] = (case matchPreserved cns [] of None \<Rightarrow> [] | Some m \<Rightarrow> [m])"
| "matchAllPreserved cns (c # cs) =
     (case matchPreserved cns (c # cs) of
        None \<Rightarrow> matchAllPreserved cns cs
      | Some m \<Rightarrow>
          if m = [] then [] # matchAllPreserved cns cs
          else m # matchAllPreserved cns (drop (length m - 1) cs))"

fun joinWith :: "jsstring \<Rightarrow> jsstring list \<Rightarrow> jsstring" where
  "joinWith sep [] = []"
| "joinWith sep [x] = x"
| "joinWith sep (x # y # ys) = x @ sep @ joinWith sep (y # ys)"

text \<open>
  What \<open>stripClassNames\<close> does with one \<open>class="..."\<close> item. With no prefix at all
  the pattern is empty and matches the empty string at every position.
\<close>

definition filterClassItem :: "jsstring list \<Rightarrow> jsstring \<Rightarrow> jsstring" where
  \<open>filterClassItem preserveClassNames item =
     (let slateClassNames =
            (if preserveClassNames = [] then replicate (length item + 1) []
             else matchAllPreserved preserveClassNames item)
      in if slateClassNames = [] then []
         else str ''class="'' @ joinWith (str '' '') slateClassNames @ str ''"'')\<close>

text \<open>
  The split on \<^verbatim>\<open>/(class="[^"]*")/g\<close>: the text between the items is kept, the
  items are filtered.
\<close>

fun splitClasses :: "jsstring list \<Rightarrow> jsstring \<Rightarrow> jsstring" where
  "splitClasses pcn [] = []"
| "splitClasses pcn (c # cs) =
     (case matchQuoted (str ''class='' @ [0x22]) 0 (c # cs) of
        None \<Rightarrow> c # splitClasses pcn cs
      | Some n \<Rightarrow> filterClassItem pcn (take n (c # cs)) @ splitClasses pcn (drop (n - 1) cs))"

text \<open>The default of the option \<open>preserveClassNames\<close> is the one prefix \<open>slate-\<close>.\<close>

definition stripClassNames :: "jsstring \<Rightarrow> classPrefix list option \<Rightarrow> jsstring" where
  "stripClassNames html preserveClassNames =
     splitClasses
       (case preserveClassNames of
          None \<Rightarrow> [str ''slate-'']
        | Some pcn \<Rightarrow> map Rep_classPrefix pcn)
       html"

section \<open>Document tree, render props and plugins\<close>

text \<open>
  A node is a text leaf or an element with an optional \<open>type\<close> and children. The
  further properties a node carries (marks, alignment, ...) are the payload \<open>'a\<close>.
\<close>

datatype 'a node =
    Text jsstring 'a
  | Element "jsstring option" 'a "'a node list"

fun nodeType :: "'a node \<Rightarrow> jsstring option" where
  "nodeType (Element ty a cs) = ty"
| "nodeType (Text t a) = None"

datatype jsvalue = JSBool bool | JSString jsstring | JSNull

text \<open>
  The render props of an element (\<open>element\<close>) or of a leaf (\<open>leaf\<close> and \<open>text\<close>): the
  node, the children markup and the attributes. The fields \<open>editor\<close> and \<open>plugins\<close>
  of the source's props repeat the arguments of the call; callbacks get the editor as an
  argument of their own.
\<close>

record 'a props =
  node :: "'a node"
  children :: jsstring
  attributes :: "(jsstring \<times> jsvalue) list"

text \<open>
  What a render callback returns: a string, or an element description \<open>'v\<close> of the
  rendering library.
\<close>

datatype 'v reactNode = RString jsstring | RElement 'v

text \<open>
  A plugin. An absent callback is None. \<open>overrideProps\<close>, a callback or an array of
  callbacks each giving an overrider or an array of overriders, is the list of callbacks,
  each giving the list of its overriders. \<open>deserialize\<close> gives the \<open>type\<close> of each item
  of its \<open>element\<close> rules, None when it has no \<open>element\<close> rules.
\<close>

record ('a, 'ed, 'v) plugin =
  serialize_element :: "('a props \<Rightarrow> 'v reactNode option) option"
  serialize_leaf :: "('a props \<Rightarrow> 'v reactNode option) option"
  renderElement :: "('ed \<Rightarrow> 'a props \<Rightarrow> 'v reactNode option) option"
  renderLeaf :: "('ed \<Rightarrow> 'a props \<Rightarrow> 'v reactNode option) option"
  overrideProps :: "('ed \<Rightarrow> ('a props \<Rightarrow> 'a props) list) list"
  deserialize :: "('ed \<Rightarrow> jsstring list option) option"

text \<open>
  \<^verbatim>\<open>plugins.flatMap((plugin) => castArray(plugin.overrideProps).flatMap((cb) => cb?.(editor) ?? []))\<close>
\<close>

definition overriders ::
  "'ed \<Rightarrow> ('a, 'ed, 'v) plugin list \<Rightarrow> ('a props \<Rightarrow> 'a props) list" where
  "overriders editor plugins =
     concat (map (\<lambda>plugin. concat (map (\<lambda>cb. cb editor) (overrideProps plugin))) plugins)"

text \<open>
  Modelled from the spec: \<open>pipeOverrideProps\<close> of the core package, which is not among
  the sources. The overriders are applied in order to the render props, each receiving
  the previous step's output and returning the next props value.
\<close>

definition pipeOverrideProps :: "'a props \<Rightarrow> ('a props \<Rightarrow> 'a props) list \<Rightarrow> 'a props" where
  "pipeOverrideProps props' ovs = foldl (\<lambda>p overrider. overrider p) props' ovs"

text \<open>The operator \<open>??\<close>.\<close>

definition nullish :: "'x option \<Rightarrow> 'x option \<Rightarrow> 'x option" where
  "nullish a b = (case a of None \<Rightarrow> b | Some x \<Rightarrow> Some x)"

text \<open>
  \<^verbatim>\<open>plugin.serialize?.element?.(elementProps) ?? plugin.renderElement?.(editor)(elementProps)\<close>
\<close>

definition elementChildren ::
  "('a, 'ed, 'v) plugin \<Rightarrow> 'ed \<Rightarrow> 'a props \<Rightarrow> 'v reactNode option" where
  "elementChildren plugin editor elementProps =
     nullish (case serialize_element plugin of None \<Rightarrow> None | Some f \<Rightarrow> f elementProps)
             (case renderElement plugin of None \<Rightarrow> None | Some g \<Rightarrow> g editor elementProps)"

text \<open>
  \<^verbatim>\<open>plugin.serialize?.leaf?.(leafProps) ?? plugin.renderLeaf?.(editor)(leafProps)\<close>
\<close>

definition leafChildren ::
  "('a, 'ed, 'v) plugin \<Rightarrow> 'ed \<Rightarrow> 'a props \<Rightarrow> 'v reactNode option" where
  "leafChildren plugin editor leafProps =
     nullish (case serialize_leaf plugin of None \<Rightarrow> None | Some f \<Rightarrow> f leafProps)
             (case renderLeaf plugin of None \<Rightarrow> None | Some g \<Rightarrow> g editor leafProps)"

text \<open>\<open>!type\<close> holds of an absent type and of the empty string.\<close>

definition falsy :: "jsstring option \<Rightarrow> bool" where
  "falsy ty = (ty = None \<or> ty = Some [])"

text \<open>\<open>String(type)\<close>\<close>

definition String :: "jsstring option \<Rightarrow> jsstring" where
  "String ty = (case ty of None \<Rightarrow> str ''undefined'' | Some s \<Rightarrow> s)"

text \<open>
  \<^verbatim>\<open>plugin.deserialize?.(editor).element?.some((item) => item.type === ty)\<close>, as a
  condition.
\<close>

definition ownsType :: "('a, 'ed, 'v) plugin \<Rightarrow> 'ed \<Rightarrow> jsstring \<Rightarrow> bool" where
  "ownsType plugin editor ty =
     (case deserialize plugin of
        None \<Rightarrow> False
      | Some d \<Rightarrow> (case d editor of None \<Rightarrow> False | Some types \<Rightarrow> ty \<in> set types))"

definition divWrapper :: "jsstring \<Rightarrow> jsstring" where
  "divWrapper c = str ''<div>'' @ c @ str ''</div>''"

section \<open>getNode\<close>

text \<open>
  The parameter \<open>render\<close> is the rendering library:
  \<^verbatim>\<open>renderToStaticMarkup(createElementWithSlate({...slateProps, children}))\<close>, from the
  slate props and the children to the markup.

  \<open>scanPlugins\<close> is the loop \<open>plugins.some(...)\<close> of getNode over the plugins that are
  left, \<open>html\<close> being the variable it assigns: a callback that returns false lets the
  scan go on, one that returns true ends it.
\<close>

fun scanPlugins ::
  "('sp option \<Rightarrow> 'v reactNode option \<Rightarrow> jsstring) \<Rightarrow> 'ed \<Rightarrow> 'sp option \<Rightarrow> classPrefix list option
   \<Rightarrow> 'a props \<Rightarrow> ('a, 'ed, 'v) plugin list \<Rightarrow> jsstring option \<Rightarrow> jsstring option" where
  "scanPlugins render editor slateProps preserveClassNames elementProps [] html = html"
| "scanPlugins render editor slateProps preserveClassNames elementProps (plugin # rest) html =
     (if serialize_element plugin = None \<and> renderElement plugin = None
      then scanPlugins render editor slateProps preserveClassNames elementProps rest html
      else if \<not> ownsType plugin editor (String (nodeType (node elementProps)))
      then scanPlugins render editor slateProps preserveClassNames elementProps rest
             (Some (divWrapper (children elementProps)))
      else Some (stripClassNames (render slateProps (elementChildren plugin editor elementProps))
                   preserveClassNames))"

definition getNode ::
  "('sp option \<Rightarrow> 'v reactNode option \<Rightarrow> jsstring) \<Rightarrow> 'ed \<Rightarrow> ('a, 'ed, 'v) plugin list
   \<Rightarrow> 'a props \<Rightarrow> 'sp option \<Rightarrow> classPrefix list option \<Rightarrow> jsstring option" where
  "getNode render editor plugins elementProps slateProps preserveClassNames =
     (if falsy (nodeType (node elementProps)) then Some (divWrapper (children elementProps))
      else scanPlugins render editor slateProps preserveClassNames
             (pipeOverrideProps elementProps (overriders editor plugins)) plugins None)"

section \<open>getLeaf\<close>

text \<open>
  One step of \<open>plugins.reduce(...)\<close>. The state is the variable \<open>leafProps\<close>, which
  the callback reassigns, and the accumulator \<open>result\<close>; \<open>children0\<close> is the constant
  \<open>children\<close> that getLeaf takes from the leaf props it is called with.
\<close>

definition getLeaf_step ::
  "('sp option \<Rightarrow> 'v reactNode option \<Rightarrow> jsstring) \<Rightarrow> 'ed \<Rightarrow> 'sp option \<Rightarrow> classPrefix list option
   \<Rightarrow> ('a props \<Rightarrow> 'a props) list \<Rightarrow> jsstring \<Rightarrow> ('a, 'ed, 'v) plugin
   \<Rightarrow> 'a props \<times> jsstring \<Rightarrow> error + 'a props \<times> jsstring" where
  "getLeaf_step render editor slateProps preserveClassNames ovs children0 plugin st =
     (case st of (leafProps, result) \<Rightarrow>
        if serialize_leaf plugin = None \<and> renderLeaf plugin = None then Inr (leafProps, result)
        else if leafChildren plugin editor leafProps = Some (RString children0)
        then Inr (leafProps, result)
        else bindE (encodeURIComponent result) (\<lambda>enc.
               let leafProps' = (pipeOverrideProps leafProps ovs)\<lparr>children := enc\<rparr> in
               bindE (decodeURIComponent
                        (render slateProps (leafChildren plugin editor leafProps')))
                 (\<lambda>html. Inr (leafProps', stripClassNames html preserveClassNames))))"

fun getLeaf_reduce ::
  "('sp option \<Rightarrow> 'v reactNode option \<Rightarrow> jsstring) \<Rightarrow> 'ed \<Rightarrow> 'sp option \<Rightarrow> classPrefix list option
   \<Rightarrow> ('a props \<Rightarrow> 'a props) list \<Rightarrow> jsstring \<Rightarrow> ('a, 'ed, 'v) plugin list
   \<Rightarrow> 'a props \<times> jsstring \<Rightarrow> error + 'a props \<times> jsstring" where
  "getLeaf_reduce render editor slateProps preserveClassNames ovs children0 [] st = Inr st"
| "getLeaf_reduce render editor slateProps preserveClassNames ovs children0 (plugin # rest) st =
     bindE (getLeaf_step render editor slateProps preserveClassNames ovs children0 plugin st)
       (getLeaf_reduce render editor slateProps preserveClassNames ovs children0 rest)"

definition getLeaf ::
  "('sp option \<Rightarrow> 'v reactNode option \<Rightarrow> jsstring) \<Rightarrow> 'ed \<Rightarrow> ('a, 'ed, 'v) plugin list
   \<Rightarrow> 'a props \<Rightarrow> 'sp option \<Rightarrow> classPrefix list option \<Rightarrow> error + jsstring" where
  "getLeaf render editor plugins leafProps slateProps preserveClassNames =
     bindE (getLeaf_reduce render editor slateProps preserveClassNames
              (overriders editor plugins) (children leafProps) plugins
              (leafProps, children leafProps))
       (\<lambda>st. Inr (snd st))"

section \<open>serializeHTMLFromNodes\<close>

text \<open>
  The passes at the end of serializeHTMLFromNodes: decode if the string is encoded,
  strip the white space, strip the data attributes.
\<close>

definition postProcess :: "bool \<Rightarrow> bool \<Rightarrow> jsstring \<Rightarrow> error + jsstring" where
  "postProcess stripWhitespace stripDataAttributes result =
     bindE (if isEncoded result then decodeURIComponent result else Inr result) (\<lambda>r1.
       let r2 = (if stripWhitespace then trimWhitespace r1 else r1);
           r3 = (if stripDataAttributes then stripSlateDataAttributes r2 else r2)
       in Inr r3)"

text \<open>\<open>.join('')\<close>: an undefined fragment joins as the empty string.\<close>

definition joinFragments :: "jsstring option list \<Rightarrow> jsstring" where
  "joinFragments frags = concat (map (\<lambda>f. case f of None \<Rightarrow> [] | Some h \<Rightarrow> h) frags)"

text \<open>
  \<open>serializeNode\<close> is the callback of \<open>nodes.map(...)\<close> and \<open>serializeNodes\<close> the map
  itself, from the left, the first exception ending it. The recursive call for the
  children of an element passes \<open>plugins\<close>, \<open>preserveClassNames\<close> and
  \<open>stripWhitespace\<close>: there \<open>slateProps\<close> is undefined and \<open>stripDataAttributes\<close> has
  its default, true.
\<close>

fun serializeHTMLFromNodes ::
    "('sp option \<Rightarrow> 'v reactNode option \<Rightarrow> jsstring) \<Rightarrow> 'ed \<Rightarrow> ('a, 'ed, 'v) plugin list
     \<Rightarrow> 'sp option \<Rightarrow> bool \<Rightarrow> classPrefix list option \<Rightarrow> bool \<Rightarrow> 'a node list \<Rightarrow> error + jsstring"
  and serializeNodes ::
    "('sp option \<Rightarrow> 'v reactNode option \<Rightarrow> jsstring) \<Rightarrow> 'ed \<Rightarrow> ('a, 'ed, 'v) plugin list
     \<Rightarrow> 'sp option \<Rightarrow> classPrefix list option \<Rightarrow> bool \<Rightarrow> 'a node list
     \<Rightarrow> error + jsstring option list"
  and serializeNode ::
    "('sp option \<Rightarrow> 'v reactNode option \<Rightarrow> jsstring) \<Rightarrow> 'ed \<Rightarrow> ('a, 'ed, 'v) plugin list
     \<Rightarrow> 'sp option \<Rightarrow> classPrefix list option \<Rightarrow> bool \<Rightarrow> 'a node \<Rightarrow> error + jsstring option"
  where
  "serializeHTMLFromNodes render editor plugins slateProps stripDataAttributes preserveClassNames
     stripWhitespace nodes =
     bindE (serializeNodes render editor plugins slateProps preserveClassNames stripWhitespace nodes)
       (\<lambda>frags. postProcess stripWhitespace stripDataAttributes (joinFragments frags))"
| "serializeNodes render editor plugins slateProps preserveClassNames stripWhitespace [] = Inr []"
| "serializeNodes render editor plugins slateProps preserveClassNames stripWhitespace (n # ns) =
     bindE (serializeNode render editor plugins slateProps preserveClassNames stripWhitespace n)
       (\<lambda>frag.
          bindE (serializeNodes render editor plugins slateProps preserveClassNames stripWhitespace ns)
            (\<lambda>frags. Inr (frag # frags)))"
| "serializeNode render editor plugins slateProps preserveClassNames stripWhitespace (Text t a) =
     bindE (if isEncoded t then Inr t else encodeURIComponent t) (\<lambda>c.
       bindE (getLeaf render editor plugins
                \<lparr>node = Text t a, children = c,
                 attributes = [(str ''data-slate-leaf'', JSBool True)]\<rparr>
                slateProps preserveClassNames)
         (\<lambda>h. Inr (Some h)))"
| "serializeNode render editor plugins slateProps preserveClassNames stripWhitespace
     (Element ty a cs) =
     bindE (serializeHTMLFromNodes render editor plugins None True preserveClassNames
              stripWhitespace cs)
       (\<lambda>inner.
          bindE (encodeURIComponent inner) (\<lambda>c.
            Inr (getNode render editor plugins
                   \<lparr>node = Element ty a cs, children = c,
                    attributes = [(str ''data-slate-node'', JSString (str ''element'')),
                                  (str ''ref'', JSNull)]\<rparr>
                   slateProps preserveClassNames)))"

declare serializeHTMLFromNodes.simps [simp del]

section \<open>Conditions on plugins\<close>

definition elementCapable :: "('a, 'ed, 'v) plugin \<Rightarrow> bool" where
  "elementCapable plugin = (serialize_element plugin \<noteq> None \<or> renderElement plugin \<noteq> None)"

definition leafCapable :: "('a, 'ed, 'v) plugin \<Rightarrow> bool" where
  "leafCapable plugin = (serialize_leaf plugin \<noteq> None \<or> renderLeaf plugin \<noteq> None)"

text \<open>
  No plugin decorates the leaf: each plugin that can render leaves returns, for these
  leaf props, their children as they are.
\<close>

definition leafUndecorated :: "'ed \<Rightarrow> ('a, 'ed, 'v) plugin list \<Rightarrow> 'a props \<Rightarrow> bool" where
  "leafUndecorated editor plugins leafProps =
     list_all (\<lambda>plugin. \<not> leafCapable plugin
                 \<or> leafChildren plugin editor leafProps = Some (RString (children leafProps)))
       plugins"

section \<open>Notions used in the statements\<close>

text \<open>The text of an attribute in the markup: a space, the name, and the quoted value.\<close>

definition attributeText :: "jsstring \<Rightarrow> jsstring \<Rightarrow> jsstring" where
  \<open>attributeText name v = str '' '' @ name @ str ''="'' @ v @ str ''"''\<close>

text \<open>A string that decodeURIComponent decodes without an exception.\<close>

definition decodable :: "jsstring \<Rightarrow> bool" where
  "decodable s = (case decodeURIComponent s of Inl e \<Rightarrow> False | Inr d \<Rightarrow> True)"

text \<open>
  The concatenation of results, the first exception ending it, and the condition that
  the fragment of a node, when there is one, decodes without an exception.
\<close>

fun concatE :: "(error + jsstring) list \<Rightarrow> error + jsstring" where
  "concatE [] = Inr []"
| "concatE (r # rs) = bindE r (\<lambda>x. bindE (concatE rs) (\<lambda>y. Inr (x @ y)))"

definition fragmentDecodable :: "error + jsstring option \<Rightarrow> bool" where
  "fragmentDecodable r = (case r of Inr (Some h) \<Rightarrow> decodable h | _ \<Rightarrow> True)"

text \<open>
  A string decoded at most once: what decodeURIComponent gives, and the string itself
  when its percent sequences are malformed. The two strip passes, each under its option.
\<close>

definition decodedOnce :: "jsstring \<Rightarrow> jsstring" where
  "decodedOnce s = (case decodeURIComponent s of Inl e \<Rightarrow> s | Inr d \<Rightarrow> d)"

definition stripPasses :: "bool \<Rightarrow> bool \<Rightarrow> jsstring \<Rightarrow> jsstring" where
  "stripPasses stripWhitespace stripDataAttributes r =
     (if stripDataAttributes then stripSlateDataAttributes else (\<lambda>x. x))
       ((if stripWhitespace then trimWhitespace else (\<lambda>x. x)) r)"

text \<open>
  The places where the data attribute strip can begin a match are the openers: a space,
  one of the four names, the equals sign and the opening quote. A string opens an
  attribute when it begins with an opener, or is itself the beginning of one (which
  what follows the string could complete). A piece of markup is the text of an
  attribute or a stretch that is kept; a piece can be stripped by itself when it is a
  stretch in which no attribute opens anywhere, or an attribute of one of the four
  names whose value is not empty and holds no quote (for \<open>data-testid\<close>, which the
  second scan removes: a value in which no attribute opens either, so that the first
  scan passes over it).
\<close>

definition attributeOpeners :: "jsstring list" where
  \<open>attributeOpeners =
     [str '' data-slate-node="'', str '' data-slate-type="'', str '' data-slate-leaf="'',
      str '' data-testid="'']\<close>

definition opensAttribute :: "jsstring \<Rightarrow> bool" where
  "opensAttribute s = list_ex (\<lambda>lit. take (length lit) s = take (length s) lit) attributeOpeners"

fun opensNowhere :: "jsstring \<Rightarrow> bool" where
  "opensNowhere [] = True"
| "opensNowhere (c # cs) = (\<not> opensAttribute (c # cs) \<and> opensNowhere cs)"





section \<open>The passes at the outermost call only\<close>

text \<open>
  The serializer as claim C2 describes it, for comparison with the source: the children
  of an element are serialized and joined without the passes, and the passes run once,
  on the result of the outermost call.
\<close>

fun rawNodes ::
    "('sp option \<Rightarrow> 'v reactNode option \<Rightarrow> jsstring) \<Rightarrow> 'ed \<Rightarrow> ('a, 'ed, 'v) plugin list
     \<Rightarrow> 'sp option \<Rightarrow> classPrefix list option \<Rightarrow> 'a node list \<Rightarrow> error + jsstring option list"
  and rawNode ::
    "('sp option \<Rightarrow> 'v reactNode option \<Rightarrow> jsstring) \<Rightarrow> 'ed \<Rightarrow> ('a, 'ed, 'v) plugin list
     \<Rightarrow> 'sp option \<Rightarrow> classPrefix list option \<Rightarrow> 'a node \<Rightarrow> error + jsstring option"
  where
  "rawNodes render editor plugins slateProps pcn [] = Inr []"
| "rawNodes render editor plugins slateProps pcn (n # ns) =
     bindE (rawNode render editor plugins slateProps pcn n) (\<lambda>frag.
       bindE (rawNodes render editor plugins slateProps pcn ns) (\<lambda>frags. Inr (frag # frags)))"
| "rawNode render editor plugins slateProps pcn (Text t a) =
     bindE (if isEncoded t then Inr t else encodeURIComponent t) (\<lambda>c.
       bindE (getLeaf render editor plugins
                \<lparr>node = Text t a, children = c,
                 attributes = [(str ''data-slate-leaf'', JSBool True)]\<rparr>
                slateProps pcn)
         (\<lambda>h. Inr (Some h)))"
| "rawNode render editor plugins slateProps pcn (Element ty a cs) =
     bindE (rawNodes render editor plugins None pcn cs) (\<lambda>frags.
       bindE (encodeURIComponent (joinFragments frags)) (\<lambda>c.
         Inr (getNode render editor plugins
                \<lparr>node = Element ty a cs, children = c,
                 attributes = [(str ''data-slate-node'', JSString (str ''element'')),
                               (str ''ref'', JSNull)]\<rparr>
                slateProps pcn)))"

definition serializeOnceAtTop ::
  "('sp option \<Rightarrow> 'v reactNode option \<Rightarrow> jsstring) \<Rightarrow> 'ed \<Rightarrow> ('a, 'ed, 'v) plugin list
   \<Rightarrow> 'sp option \<Rightarrow> bool \<Rightarrow> classPrefix list option \<Rightarrow> bool \<Rightarrow> 'a node list \<Rightarrow> error + jsstring" where
  "serializeOnceAtTop render editor plugins slateProps stripDataAttributes pcn stripWhitespace nodes =
     bindE (rawNodes render editor plugins slateProps pcn nodes)
       (\<lambda>frags. postProcess stripWhitespace stripDataAttributes (joinFragments frags))"

section \<open>An instance of the rendering library\<close>

text \<open>
  For the examples: an element description is a tag with attributes and a text child;
  its static markup is the opening tag, the escaped text and the closing tag, and the
  markup of a string is the escaped string.
\<close>

datatype element = Tag jsstring "(jsstring \<times> jsstring) list" jsstring

definition escapeChar :: "jschar \<Rightarrow> jsstring" where
  \<open>escapeChar c =
     (if c = 0x26 then str ''&amp;'' else if c = 0x3C then str ''&lt;''
      else if c = 0x3E then str ''&gt;'' else if c = 0x22 then str ''&quot;''
      else if c = 0x27 then str ''&#x27;'' else [c])\<close>

definition escapeHtml :: "jsstring \<Rightarrow> jsstring" where
  "escapeHtml s = concat (map escapeChar s)"

fun staticMarkup :: "unit option \<Rightarrow> element reactNode option \<Rightarrow> jsstring" where
  "staticMarkup sp None = []"
| "staticMarkup sp (Some (RString s)) = escapeHtml s"
| \<open>staticMarkup sp (Some (RElement (Tag name attrs text))) =
     str ''<'' @ name
     @ concat (map (\<lambda>(k, v). str '' '' @ k @ str ''="'' @ escapeHtml v @ str ''"'') attrs)
     @ str ''>'' @ escapeHtml text @ str ''</'' @ name @ str ''>''\<close>

definition noPlugin :: "(unit, unit, element) plugin" where
  "noPlugin = \<lparr>serialize_element = None, serialize_leaf = None, renderElement = None,
     renderLeaf = None, overrideProps = [], deserialize = None\<rparr>"

text \<open>A plugin that renders the elements of the given types as a tag around the children.\<close>

definition elementPlugin ::
  "jsstring \<Rightarrow> (jsstring \<times> jsstring) list \<Rightarrow> jsstring list \<Rightarrow> (unit, unit, element) plugin" where
  "elementPlugin tag attrs types =
     noPlugin\<lparr>renderElement := Some (\<lambda>editor p. Some (RElement (Tag tag attrs (children p)))),
       deserialize := Some (\<lambda>editor. Some types)\<rparr>"

text \<open>A plugin that renders every leaf as a tag around the children.\<close>

definition leafPlugin :: "jsstring \<Rightarrow> (unit, unit, element) plugin" where
  "leafPlugin tag =
     noPlugin\<lparr>serialize_leaf := Some (\<lambda>p. Some (RElement (Tag tag [] (children p))))\<rparr>"

text \<open>A plugin that renders no leaf differently: it returns the children as they are.\<close>

definition plainLeafPlugin :: "(unit, unit, element) plugin" where
  "plainLeafPlugin = noPlugin\<lparr>renderLeaf := Some (\<lambda>editor p. Some (RString (children p)))\<rparr>"

text \<open>A plugin whose only contribution is an overrider that replaces the children.\<close>

definition overridePlugin :: "jsstring \<Rightarrow> (unit, unit, element) plugin" where
  "overridePlugin c = noPlugin\<lparr>overrideProps := [\<lambda>editor. [\<lambda>p. p\<lparr>children := c\<rparr>]]\<rparr>"

text \<open>
  A plugin that renders every leaf as a tag with attributes around the children, and a
  plugin that renders every leaf as one fixed string.
\<close>

definition leafPluginWith ::
  "jsstring \<Rightarrow> (jsstring \<times> jsstring) list \<Rightarrow> (unit, unit, element) plugin" where
  "leafPluginWith tag attrs =
     noPlugin\<lparr>serialize_leaf := Some (\<lambda>p. Some (RElement (Tag tag attrs (children p))))\<rparr>"

definition fixedLeafPlugin :: "jsstring \<Rightarrow> (unit, unit, element) plugin" where
  "fixedLeafPlugin c = noPlugin\<lparr>renderLeaf := Some (\<lambda>editor p. Some (RString c))\<rparr>"

section \<open>Evaluation\<close>

lemma readOctets_numeral:
  "readOctets (numeral k) [] = None"
  "readOctets (numeral k) (c # cs) =
     (if c \<noteq> 0x25 then None
      else case parseHexOctet cs of
             None \<Rightarrow> None
           | Some (b, rest) \<Rightarrow>
               (case readOctets (pred_numeral k) rest of
                  None \<Rightarrow> None
                | Some (bs, rest') \<Rightarrow> Some (b # bs, rest')))"
  by (simp_all only: numeral_eq_Suc readOctets.simps)

lemmas uri_simps =
  str_def bindE_def Let_def readOctets_numeral uriUnescaped_def isTrailSurrogate_def
  isLeadSurrogate_def percentEncode_def utf8Encode_def percentOctet_def hexDigit_def
  hexValue_def leadingOnes_def isContinuation_def utf16Encode_def isEncoded_def

lemmas markup_simps =
  matchQuoted_def matchSlateAttribute_def matchTestidAttribute_def
  stripSlateDataAttributes_def isWhiteSpace_def filterClassItem_def stripClassNames_def
  trimWhitespace_def escapeChar_def escapeHtml_def

lemmas plugin_simps =
  overriders_def pipeOverrideProps_def nullish_def elementChildren_def leafChildren_def
  falsy_def String_def ownsType_def divWrapper_def elementCapable_def leafCapable_def
  leafUndecorated_def noPlugin_def elementPlugin_def leafPlugin_def plainLeafPlugin_def
  overridePlugin_def leafPluginWith_def fixedLeafPlugin_def

lemmas serialize_simps =
  serializeHTMLFromNodes.simps getNode_def getLeaf_step_def getLeaf_def postProcess_def joinFragments_def

section \<open>The passes at the end of a call\<close>

lemma postProcess_passes:
  "postProcess sw sda s = Inr (stripPasses sw sda (decodedOnce s))"
  by (auto simp: postProcess_def decodedOnce_def stripPasses_def isEncoded_def bindE_def
        split: sum.splits)

lemma decodedOnce_decodes:
  "decodeURIComponent s = Inr d \<Longrightarrow> decodedOnce s = d"
  by (simp add: decodedOnce_def)

lemma joinFragments_append:
  "joinFragments (fx @ fy) = joinFragments fx @ joinFragments fy"
  by (simp add: joinFragments_def)

lemma joinFragments_Cons:
  "joinFragments (f # fs) = (case f of None \<Rightarrow> [] | Some h \<Rightarrow> h) @ joinFragments fs"
  by (simp add: joinFragments_def)


section \<open>The element dispatch\<close>

lemma scanPlugins_find:
  "scanPlugins render editor slateProps pcn ep plugins html =
     (case find (\<lambda>p. elementCapable p \<and> ownsType p editor (String (nodeType (node ep)))) plugins of
        Some p \<Rightarrow> Some (stripClassNames (render slateProps (elementChildren p editor ep)) pcn)
      | None \<Rightarrow> if list_ex elementCapable plugins then Some (divWrapper (children ep)) else html)"
  by (induction plugins arbitrary: html) (auto simp: elementCapable_def)

text \<open>
  Claim C1, as amended. For an element with a type, the scan does not stop at a plugin
  that can render elements but does not own the type: the plain wrapper is only the
  provisional value of \<open>html\<close> and the scan goes on. The result is the render of the
  first plugin that both can render elements and owns the type; without such a plugin
  it is the plain wrapper if some plugin can render elements, and undefined otherwise.
\<close>

theorem getNode_scan_continues:
  assumes "\<not> falsy (nodeType (node elementProps))"
  shows "getNode render editor plugins elementProps slateProps pcn =
     (let ep = pipeOverrideProps elementProps (overriders editor plugins) in
      case find (\<lambda>p. elementCapable p \<and> ownsType p editor (String (nodeType (node ep)))) plugins of
        Some p \<Rightarrow> Some (stripClassNames (render slateProps (elementChildren p editor ep)) pcn)
      | None \<Rightarrow> if list_ex elementCapable plugins then Some (divWrapper (children ep)) else None)"
  using assms by (simp add: getNode_def scanPlugins_find Let_def)

theorem getNode_scan_continues_witness:
  "getNode staticMarkup ()
     [leafPlugin (str ''b''), elementPlugin (str ''h1'') [] [str ''heading''],
      elementPlugin (str ''blockquote'') [] [str ''quote''],
      elementPlugin (str ''p'') [] [str ''paragraph'', str ''quote'']]
     \<lparr>node = Element (Some (str ''quote'')) () [], children = str ''hi'', attributes = []\<rparr>
     None None = Some (str ''<blockquote>hi</blockquote>'')"
  using getNode_scan_continues [of
      "\<lparr>node = Element (Some (str ''quote'')) () [], children = str ''hi'', attributes = []\<rparr>"
      staticMarkup "()"
      "[leafPlugin (str ''b''), elementPlugin (str ''h1'') [] [str ''heading''],
        elementPlugin (str ''blockquote'') [] [str ''quote''],
        elementPlugin (str ''p'') [] [str ''paragraph'', str ''quote'']]" None None]
  by (simp add: plugin_simps markup_simps uri_simps)

text \<open>
  Claim C1 as stated fails: the first plugin can render elements and does not own the
  type \<open>paragraph\<close>, and the element is rendered by the second plugin, not as the
  plain wrapper.
\<close>

theorem getNode_scan_stops_counterexample:
  "elementCapable (elementPlugin (str ''h1'') [] [str ''heading''])
   \<and> \<not> ownsType (elementPlugin (str ''h1'') [] [str ''heading'']) () (str ''paragraph'')
   \<and> getNode staticMarkup ()
        [elementPlugin (str ''h1'') [] [str ''heading''],
         elementPlugin (str ''p'') [] [str ''paragraph'']]
        \<lparr>node = Element (Some (str ''paragraph'')) () [], children = str ''hi'', attributes = []\<rparr>
        None None = Some (str ''<p>hi</p>'')
   \<and> Some (str ''<p>hi</p>'') \<noteq> Some (divWrapper (str ''hi''))"
  by (simp add: serialize_simps plugin_simps markup_simps uri_simps)

section \<open>The leaf fold\<close>

lemma getLeaf_reduce_append:
  "getLeaf_reduce R ed sp pcn ovs c0 (ps @ qs) st =
     bindE (getLeaf_reduce R ed sp pcn ovs c0 ps st) (getLeaf_reduce R ed sp pcn ovs c0 qs)"
proof (induction ps arbitrary: st)
  case Nil
  show ?case by (simp add: bindE_def)
next
  case (Cons p ps)
  show ?case
    by (cases "getLeaf_step R ed sp pcn ovs c0 p st") (simp_all add: bindE_def Cons.IH)
qed

lemma getLeaf_step_skip:
  assumes "\<not> leafCapable p \<or> leafChildren p ed lp = Some (RString c0)"
  shows "getLeaf_step R ed sp pcn ovs c0 p (lp, result) = Inr (lp, result)"
  using assms by (auto simp: getLeaf_step_def leafCapable_def)

lemma getLeaf_reduce_undecorated:
  assumes "list_all (\<lambda>p. \<not> leafCapable p \<or> leafChildren p ed lp = Some (RString c0)) ps"
  shows "getLeaf_reduce R ed sp pcn ovs c0 ps (lp, result) = Inr (lp, result)"
  using assms by (induction ps) (simp_all add: getLeaf_step_skip bindE_def)

lemma getLeaf_undecorated:
  assumes "leafUndecorated ed ps lp"
  shows "getLeaf R ed ps lp sp pcn = Inr (children lp)"
  using assms
  by (simp add: getLeaf_def leafUndecorated_def getLeaf_reduce_undecorated bindE_def)

text \<open>
  Claim C4, as amended. In the fold of getLeaf the plugin's render of the current leaf
  props is compared with the constant \<open>children\<close> that getLeaf takes from the leaf props
  it is called with, not with the children of the current leaf props. When the fold
  over the plugins before has reached the state \<open>(leafProps, result)\<close> and a plugin that
  can render leaves returns, for the current leaf props, exactly the children getLeaf
  was called with, the step returns the state unchanged, and the fold over the whole
  plugin sequence gives what it gives without that plugin: the plugin contributes no
  wrapping element. As long as no plugin before has decorated the leaf, the current
  leaf props and the accumulator are still those getLeaf was called with, and the value
  compared with is the current children value.
\<close>

theorem leaf_noop_skipped:
  assumes "getLeaf_reduce render editor slateProps pcn ovs (children leafProps0) before
             (leafProps0, children leafProps0) = Inr (leafProps, result)"
    and "leafCapable plugin"
    and "leafChildren plugin editor leafProps = Some (RString (children leafProps0))"
  shows "getLeaf_step render editor slateProps pcn ovs (children leafProps0) plugin
           (leafProps, result) = Inr (leafProps, result)
       \<and> getLeaf_reduce render editor slateProps pcn ovs (children leafProps0)
           (before @ plugin # after) (leafProps0, children leafProps0)
         = getLeaf_reduce render editor slateProps pcn ovs (children leafProps0)
             (before @ after) (leafProps0, children leafProps0)
       \<and> (leafUndecorated editor before leafProps0
          \<longrightarrow> leafProps = leafProps0 \<and> result = children leafProps0)"
proof -
  have step: "getLeaf_step render editor slateProps pcn ovs (children leafProps0) plugin
      (leafProps, result) = Inr (leafProps, result)"
    using assms(3) by (rule getLeaf_step_skip [OF disjI2])
  have "leafProps = leafProps0 \<and> result = children leafProps0"
    if "leafUndecorated editor before leafProps0"
    using that assms(1)
    by (auto simp: leafUndecorated_def getLeaf_reduce_undecorated)
  then show ?thesis
    by (simp add: step getLeaf_reduce_append assms(1) bindE_def)
qed

theorem leaf_noop_skipped_witness:
  "leafCapable plainLeafPlugin
   \<and> leafChildren plainLeafPlugin ()
        \<lparr>node = Text (str ''a b'') (), children = str ''a%20b'', attributes = []\<rparr>
       = Some (RString (str ''a%20b''))
   \<and> getLeaf_reduce staticMarkup () None None [] (str ''a%20b'')
        ([elementPlugin (str ''p'') [] [str ''paragraph'']] @ plainLeafPlugin # [leafPlugin (str ''b'')])
        (\<lparr>node = Text (str ''a b'') (), children = str ''a%20b'', attributes = []\<rparr>,
         str ''a%20b'')
     = Inr (\<lparr>node = Text (str ''a b'') (), children = str ''a%2520b'', attributes = []\<rparr>,
            str ''<b>a%20b</b>'')
   \<and> leafCapable (fixedLeafPlugin (str ''a%20b''))
   \<and> getLeaf_step staticMarkup () None None [] (str ''a%20b'') (fixedLeafPlugin (str ''a%20b''))
        (\<lparr>node = Text (str ''a b'') (), children = str ''a%2520b'', attributes = []\<rparr>,
         str ''<b>a%20b</b>'')
     = Inr (\<lparr>node = Text (str ''a b'') (), children = str ''a%2520b'', attributes = []\<rparr>,
            str ''<b>a%20b</b>'')"
  using leaf_noop_skipped [where render = staticMarkup and editor = "()" and slateProps = None
      and pcn = None and ovs = "[]"
      and leafProps0 = "\<lparr>node = Text (str ''a b'') (), children = str ''a%20b'',
                          attributes = []\<rparr>"
      and before = "[elementPlugin (str ''p'') [] [str ''paragraph'']]"
      and leafProps = "\<lparr>node = Text (str ''a b'') (), children = str ''a%20b'',
                         attributes = []\<rparr>"
      and result = "str ''a%20b''" and plugin = plainLeafPlugin
      and after = "[leafPlugin (str ''b'')]"]
    leaf_noop_skipped [where render = staticMarkup and editor = "()" and slateProps = None
      and pcn = None and ovs = "[]"
      and leafProps0 = "\<lparr>node = Text (str ''a b'') (), children = str ''a%20b'',
                          attributes = []\<rparr>"
      and before = "[leafPlugin (str ''b'')]"
      and leafProps = "\<lparr>node = Text (str ''a b'') (), children = str ''a%2520b'',
                         attributes = []\<rparr>"
      and result = "str ''<b>a%20b</b>''" and plugin = "fixedLeafPlugin (str ''a%20b'')"
      and after = "[]"]
  by (simp add: fixedLeafPlugin_def serialize_simps plugin_simps markup_simps uri_simps)

text \<open>
  Claim C4 as stated fails once a plugin has decorated the leaf. The current leaf props
  then hold the encoded accumulator as their children. A plugin that returns the current
  children as they are is not skipped, since they differ from the children getLeaf was
  called with: the accumulator is rendered again, and its apostrophe comes back escaped.
\<close>

theorem leaf_current_children_counterexample:
  \<open>getLeaf_reduce staticMarkup () None None [] (str ''a%20b'')
     [leafPluginWith (str ''b'') [(str ''title'', str ''%27'')]]
     (\<lparr>node = Text (str ''a b'') (), children = str ''a%20b'', attributes = []\<rparr>, str ''a%20b'')
     = Inr (\<lparr>node = Text (str ''a b'') (), children = str ''a%2520b'', attributes = []\<rparr>,
            str ''<b title="'' @ [0x27] @ str ''">a%20b</b>'')
   \<and> leafCapable plainLeafPlugin
   \<and> leafChildren plainLeafPlugin ()
        \<lparr>node = Text (str ''a b'') (), children = str ''a%2520b'', attributes = []\<rparr>
       = Some (RString (children
           \<lparr>node = Text (str ''a b'') (), children = str ''a%2520b'', attributes = []\<rparr>))
   \<and> getLeaf_step staticMarkup () None None [] (str ''a%20b'') plainLeafPlugin
        (\<lparr>node = Text (str ''a b'') (), children = str ''a%2520b'', attributes = []\<rparr>,
         str ''<b title="'' @ [0x27] @ str ''">a%20b</b>'')
     = Inr (\<lparr>node = Text (str ''a b'') (),
             children = str ''%3Cb%20title%3D%22'' @ [0x27] @ str ''%22%3Ea%2520b%3C%2Fb%3E'',
             attributes = []\<rparr>,
            str ''<b title="&#x27;">a%20b</b>'')
   \<and> str ''<b title="&#x27;">a%20b</b>'' \<noteq> str ''<b title="'' @ [0x27] @ str ''">a%20b</b>''\<close>
  by (simp add: leafPluginWith_def serialize_simps plugin_simps markup_simps uri_simps)

section \<open>Elements without a type, elements no plugin owns\<close>

lemma serializeNodes_append:
  "serializeNodes R ed ps sp pcn sw (xs @ ys) =
     bindE (serializeNodes R ed ps sp pcn sw xs) (\<lambda>fx.
       bindE (serializeNodes R ed ps sp pcn sw ys) (\<lambda>fy. Inr (fx @ fy)))"
proof (induction xs)
  case Nil
  show ?case by (simp add: bindE_def split: sum.splits)
next
  case (Cons x xs)
  show ?case
    by (simp add: Cons.IH bindE_def split: sum.splits)
qed

lemma joinFragments_absent:
  "joinFragments (fx @ None # fy) = joinFragments (fx @ fy)"
  by (simp add: joinFragments_def)

text \<open>
  Claim C5, as amended. For an element whose type is undefined, getNode returns the
  plain wrapper around the children it is given, whatever the plugins are. An element
  with no type and the one child \<open>{text: "a"}\<close> serializes to \<open><div>a</div>\<close> for
  every plugin registry in which no plugin decorates the leaf, whatever the plugins'
  element renderers, deserialize rules and overriders, and for all options.
\<close>

theorem untyped_element_wrapper:
  "getNode render editor plugins
     \<lparr>node = Element None a cs, children = c, attributes = attrs\<rparr> slateProps pcn
     = Some (divWrapper c)
   \<and> (leafUndecorated editor plugins
         \<lparr>node = Text (str ''a'') b, children = str ''a'',
          attributes = [(str ''data-slate-leaf'', JSBool True)]\<rparr>
       \<longrightarrow> serializeHTMLFromNodes render editor plugins slateProps stripDataAttributes pcn
             stripWhitespace [Element None a [Text (str ''a'') b]]
           = Inr (str ''<div>a</div>''))"
proof (intro conjI impI)
  show "getNode render editor plugins
     \<lparr>node = Element None a cs, children = c, attributes = attrs\<rparr> slateProps pcn
     = Some (divWrapper c)"
    by (simp add: getNode_def falsy_def)
next
  assume und: "leafUndecorated editor plugins
         \<lparr>node = Text (str ''a'') b, children = str ''a'',
          attributes = [(str ''data-slate-leaf'', JSBool True)]\<rparr>"
  have enc: "\<not> isEncoded (str ''a'')" "encodeURIComponent (str ''a'') = Inr (str ''a'')"
    by (simp_all add: uri_simps)
  have leaf: "serializeNode render editor plugins None pcn stripWhitespace (Text (str ''a'') b)
      = Inr (Some (str ''a''))"
    by (simp add: enc getLeaf_undecorated [OF und] bindE_def)
  have post: "postProcess stripWhitespace True (str ''a'') = Inr (str ''a'')"
    by (simp add: postProcess_def markup_simps uri_simps)
  have inner: "serializeHTMLFromNodes render editor plugins None True pcn stripWhitespace
      [Text (str ''a'') b] = Inr (str ''a'')"
    by (simp add: serializeHTMLFromNodes.simps leaf bindE_def joinFragments_def post
          del: serializeNode.simps)
  have elem: "serializeNode render editor plugins slateProps pcn stripWhitespace
      (Element None a [Text (str ''a'') b]) = Inr (Some (str ''<div>a</div>''))"
    by (simp add: inner enc bindE_def getNode_def falsy_def divWrapper_def) (simp add: str_def)
  have post': "postProcess stripWhitespace stripDataAttributes (str ''<div>a</div>'')
      = Inr (str ''<div>a</div>'')"
    by (simp add: postProcess_def markup_simps uri_simps)
  show "serializeHTMLFromNodes render editor plugins slateProps stripDataAttributes pcn
             stripWhitespace [Element None a [Text (str ''a'') b]]
           = Inr (str ''<div>a</div>'')"
    by (simp add: serializeHTMLFromNodes.simps elem bindE_def joinFragments_def post'
          del: serializeNode.simps)
qed

theorem untyped_element_wrapper_witness:
  "serializeHTMLFromNodes staticMarkup ()
     [plainLeafPlugin, elementPlugin (str ''p'') [] [str ''paragraph''], overridePlugin (str ''x'')]
     None True None True [Element None () [Text (str ''a'') ()]] = Inr (str ''<div>a</div>'')"
  using untyped_element_wrapper [of staticMarkup "()"
     "[plainLeafPlugin, elementPlugin (str ''p'') [] [str ''paragraph''], overridePlugin (str ''x'')]"
     "()" "[]" "[]" "[]" None None "()" True True]
  by (simp add: plugin_simps)

text \<open>
  Claim C5 as stated fails: the registered plugins matter for the text child. With a
  plugin that renders every leaf in a \<open>b\<close> tag the output is not \<open><div>a</div>\<close>.
\<close>

theorem untyped_example_counterexample:
  "serializeHTMLFromNodes staticMarkup () [leafPlugin (str ''b'')] None True None True
     [Element None () [Text (str ''a'') ()]] = Inr (str ''<div><b>a</b></div>'')
   \<and> Inr (str ''<div><b>a</b></div>'') \<noteq> (Inr (str ''<div>a</div>'') :: error + jsstring)"
  by (simp add: serialize_simps plugin_simps markup_simps uri_simps)

text \<open>
  Claim C10. For an element whose type is falsy, getNode returns the wrapper around
  the children of the props it was given: the overriders of the plugins are neither
  collected nor applied, and the result is the same whatever \<open>overrideProps\<close> the
  plugins have. For an element with a type, the plugins are scanned with the props the
  override pipeline returns.
\<close>

theorem untyped_element_skips_overrides:
  "(falsy (nodeType (node elementProps))
      \<longrightarrow> getNode render editor plugins elementProps slateProps pcn
          = Some (divWrapper (children elementProps)))
   \<and> (\<not> falsy (nodeType (node elementProps))
      \<longrightarrow> getNode render editor plugins elementProps slateProps pcn
          = scanPlugins render editor slateProps pcn
              (pipeOverrideProps elementProps (overriders editor plugins)) plugins None)
   \<and> (falsy (nodeType (node elementProps))
      \<longrightarrow> getNode render editor (map (\<lambda>p. p\<lparr>overrideProps := other p\<rparr>) plugins) elementProps
            slateProps pcn
          = getNode render editor plugins elementProps slateProps pcn)"
  by (simp add: getNode_def)

theorem untyped_element_skips_overrides_witness:
  "getNode staticMarkup ()
     [overridePlugin (str ''x''), elementPlugin (str ''p'') [] [str ''paragraph'']]
     \<lparr>node = Element None () [], children = str ''c'', attributes = []\<rparr> None None
     = Some (str ''<div>c</div>'')
   \<and> getNode staticMarkup ()
     [overridePlugin (str ''x''), elementPlugin (str ''p'') [] [str ''paragraph'']]
     \<lparr>node = Element (Some (str ''quote'')) () [], children = str ''c'', attributes = []\<rparr> None None
     = Some (str ''<div>x</div>'')"
  using untyped_element_skips_overrides [where
      elementProps = "\<lparr>node = Element None () [], children = str ''c'', attributes = []\<rparr>"
      and render = staticMarkup and editor = "()"
      and plugins = "[overridePlugin (str ''x''), elementPlugin (str ''p'') [] [str ''paragraph'']]"
      and slateProps = None and pcn = None and other = "\<lambda>p. []"]
    untyped_element_skips_overrides [where
      elementProps = "\<lparr>node = Element (Some (str ''quote'')) () [], children = str ''c'',
                       attributes = []\<rparr>"
      and render = staticMarkup and editor = "()"
      and plugins = "[overridePlugin (str ''x''), elementPlugin (str ''p'') [] [str ''paragraph'']]"
      and slateProps = None and pcn = None and other = "\<lambda>p. []"]
  by (simp add: plugin_simps markup_simps uri_simps)

text \<open>
  Claim C6, as amended. Take an element with a type and a registry in which no plugin
  that can render elements owns the type. Serializing the element throws exactly when
  serializing its children throws or when encodeURIComponent rejects the output of the
  children. Otherwise the fragment of the element is the plain wrapper around the
  children when some plugin can render elements, and undefined when none can. In the
  second case the fragment joins as the empty string: the output is the output for the
  sibling nodes alone.
\<close>

theorem unowned_element_fragment:
  assumes typed: "\<not> falsy ty"
    and unowned: "\<forall>c. \<forall>p \<in> set plugins.
        elementCapable p \<longrightarrow>
        \<not> ownsType p editor
            (String (nodeType (node (pipeOverrideProps
               \<lparr>node = Element ty a cs, children = c,
                attributes = [(str ''data-slate-node'', JSString (str ''element'')),
                              (str ''ref'', JSNull)]\<rparr>
               (overriders editor plugins)))))"
  shows "serializeNode render editor plugins slateProps pcn stripWhitespace (Element ty a cs)
           = bindE (serializeHTMLFromNodes render editor plugins None True pcn stripWhitespace cs)
               (\<lambda>inner. bindE (encodeURIComponent inner) (\<lambda>c.
                  Inr (if list_ex elementCapable plugins
                       then Some (divWrapper (children (pipeOverrideProps
                              \<lparr>node = Element ty a cs, children = c,
                               attributes = [(str ''data-slate-node'', JSString (str ''element'')),
                                             (str ''ref'', JSNull)]\<rparr>
                              (overriders editor plugins))))
                       else None)))
       \<and> (\<not> list_ex elementCapable plugins
            \<and> serializeHTMLFromNodes render editor plugins None True pcn stripWhitespace cs
                = Inr inner
            \<and> encodeURIComponent inner = Inr c
          \<longrightarrow> serializeHTMLFromNodes render editor plugins slateProps stripDataAttributes pcn
                stripWhitespace (before @ Element ty a cs # after)
              = serializeHTMLFromNodes render editor plugins slateProps stripDataAttributes pcn
                stripWhitespace (before @ after))"
proof -
  have nofind: "find (\<lambda>p. elementCapable p \<and> ownsType p editor (String (nodeType (node
      (pipeOverrideProps
               \<lparr>node = Element ty a cs, children = c,
                attributes = [(str ''data-slate-node'', JSString (str ''element'')),
                              (str ''ref'', JSNull)]\<rparr>
               (overriders editor plugins)))))) plugins = None" for c
    using unowned by (auto simp: find_None_iff)
  have node: "serializeNode render editor plugins slateProps pcn stripWhitespace (Element ty a cs)
           = bindE (serializeHTMLFromNodes render editor plugins None True pcn stripWhitespace cs)
               (\<lambda>inner. bindE (encodeURIComponent inner) (\<lambda>c.
                  Inr (if list_ex elementCapable plugins
                       then Some (divWrapper (children (pipeOverrideProps
                              \<lparr>node = Element ty a cs, children = c,
                               attributes = [(str ''data-slate-node'', JSString (str ''element'')),
                                             (str ''ref'', JSNull)]\<rparr>
                              (overriders editor plugins))))
                       else None)))"
    using typed
    by (simp add: bindE_def getNode_def scanPlugins_find nofind split: sum.splits)
  have "serializeHTMLFromNodes render editor plugins slateProps stripDataAttributes pcn
                stripWhitespace (before @ Element ty a cs # after)
              = serializeHTMLFromNodes render editor plugins slateProps stripDataAttributes pcn
                stripWhitespace (before @ after)"
    if "\<not> list_ex elementCapable plugins"
      and "serializeHTMLFromNodes render editor plugins None True pcn stripWhitespace cs = Inr inner"
      and "encodeURIComponent inner = Inr c"
  proof -
    have none: "serializeNode render editor plugins slateProps pcn stripWhitespace (Element ty a cs)
        = Inr None"
      using that by (simp add: node bindE_def del: serializeNode.simps)
    show ?thesis
      unfolding serializeHTMLFromNodes.simps serializeNodes_append serializeNodes.simps(2) none
      by (simp add: bindE_def joinFragments_absent split: sum.splits)
  qed
  with node show ?thesis by blast
qed

theorem unowned_element_fragment_witness:
  "serializeNode staticMarkup () [leafPlugin (str ''b'')] None None True
     (Element (Some (str ''paragraph'')) () [Text (str ''hi'') ()]) = Inr None
   \<and> serializeHTMLFromNodes staticMarkup () [leafPlugin (str ''b'')] None True None True
       ([Text (str ''x'') ()] @ Element (Some (str ''paragraph'')) () [Text (str ''hi'') ()]
          # [Text (str ''y'') ()])
     = Inr (str ''<b>x</b><b>y</b>'')
   \<and> serializeNode staticMarkup () [elementPlugin (str ''h1'') [] [str ''heading'']] None None True
     (Element (Some (str ''paragraph'')) () [Text (str ''a b'') ()])
     = Inr (Some (str ''<div>a%20b</div>''))"
  using unowned_element_fragment [where render = staticMarkup and editor = "()"
      and plugins = "[leafPlugin (str ''b'')]" and ty = "Some (str ''paragraph'')"
      and pcn = None and stripWhitespace = True and cs = "[Text (str ''hi'') ()]"
      and inner = "str ''<b>hi</b>''" and c = "str ''%3Cb%3Ehi%3C%2Fb%3E''" and a = "()"
      and slateProps = None and stripDataAttributes = True
      and before = "[Text (str ''x'') ()]" and after = "[Text (str ''y'') ()]"]
    unowned_element_fragment [where render = staticMarkup and editor = "()"
      and plugins = "[elementPlugin (str ''h1'') [] [str ''heading'']]"
      and ty = "Some (str ''paragraph'')"
      and pcn = None and stripWhitespace = True and cs = "[Text (str ''a b'') ()]"
      and inner = "str ''a b''" and c = "str ''a%20b''" and a = "()"
      and slateProps = None and stripDataAttributes = True
      and before = "[]" and after = "[]"]
  by (simp add: serialize_simps plugin_simps markup_simps uri_simps)

text \<open>
  Claim C6 as stated fails: no plugin owns the type \<open>paragraph\<close>, and the result of
  getNode is the plain wrapper, not undefined, because a plugin can render elements.
\<close>

theorem unowned_element_undefined_counterexample:
  "\<not> ownsType (elementPlugin (str ''h1'') [] [str ''heading'']) () (str ''paragraph'')
   \<and> getNode staticMarkup () [elementPlugin (str ''h1'') [] [str ''heading'']]
        \<lparr>node = Element (Some (str ''paragraph'')) () [Text (str ''hi'') ()],
         children = str ''hi'', attributes = []\<rparr> None None
       = Some (str ''<div>hi</div>'')
   \<and> getNode staticMarkup () [elementPlugin (str ''h1'') [] [str ''heading'']]
        \<lparr>node = Element (Some (str ''paragraph'')) () [Text (str ''hi'') ()],
         children = str ''hi'', attributes = []\<rparr> None None
       \<noteq> None"
  by (simp add: serialize_simps plugin_simps markup_simps uri_simps)

text \<open>
  An element no plugin owns can make the serialization throw although its children
  serialize: the text decodes to a string with a lone surrogate, which
  encodeURIComponent rejects when the output of the children is encoded for getNode.
\<close>

theorem unowned_element_surrogate_example:
  "serializeHTMLFromNodes staticMarkup () [] None True None True
     [Text (str ''%41'' @ [0xD800]) ()] = Inr (str ''A'' @ [0xD800])
   \<and> serializeNode staticMarkup () [] None None True
       (Element (Some (str ''paragraph'')) () [Text (str ''%41'' @ [0xD800]) ()]) = Inl URIError"
  by (simp add: serialize_simps plugin_simps markup_simps uri_simps)

section \<open>Malformed percent sequences\<close>

text \<open>
  Claim C9. When decoding a string throws, isEncoded is false of it, the passes at the
  end of serializeHTMLFromNodes go on with the string as it is and raise nothing, and so
  a serialization whose joined fragments are that string returns it, stripped as the
  options say.
\<close>

theorem malformed_is_not_encoded:
  assumes "decodeURIComponent s = Inl e"
  shows "\<not> isEncoded s
       \<and> postProcess stripWhitespace stripDataAttributes s
           = Inr ((if stripDataAttributes then stripSlateDataAttributes else (\<lambda>r. r))
                    ((if stripWhitespace then trimWhitespace else (\<lambda>r. r)) s))
       \<and> (serializeNodes render editor plugins slateProps pcn stripWhitespace nodes = Inr frags
            \<and> joinFragments frags = s
          \<longrightarrow> serializeHTMLFromNodes render editor plugins slateProps stripDataAttributes pcn
                stripWhitespace nodes
              = Inr ((if stripDataAttributes then stripSlateDataAttributes else (\<lambda>r. r))
                       ((if stripWhitespace then trimWhitespace else (\<lambda>r. r)) s)))"
proof -
  have ne: "\<not> isEncoded s"
    using assms by (simp add: isEncoded_def)
  then have post: "postProcess stripWhitespace stripDataAttributes s
           = Inr ((if stripDataAttributes then stripSlateDataAttributes else (\<lambda>r. r))
                    ((if stripWhitespace then trimWhitespace else (\<lambda>r. r)) s))"
    by (simp add: postProcess_def bindE_def)
  show ?thesis
    using ne post by (simp add: serializeHTMLFromNodes.simps bindE_def)
qed

theorem malformed_is_not_encoded_witness:
  \<open>decodeURIComponent (str ''<p style="width:100%">hi</p>'') = Inl URIError
   \<and> \<not> isEncoded (str ''<p style="width:100%">hi</p>'')
   \<and> serializeHTMLFromNodes staticMarkup ()
       [elementPlugin (str ''p'') [(str ''style'', str ''width:100%'')] [str ''paragraph'']]
       None True None True [Element (Some (str ''paragraph'')) () [Text (str ''hi'') ()]]
     = Inr (str ''<p style="width:100%">hi</p>'')\<close>
  using malformed_is_not_encoded [where s = \<open>str ''<p style="width:100%">hi</p>''\<close>
      and e = URIError and stripWhitespace = True and stripDataAttributes = True
      and render = staticMarkup and editor = "()"
      and plugins = "[elementPlugin (str ''p'') [(str ''style'', str ''width:100%'')] [str ''paragraph'']]"
      and slateProps = None and pcn = None
      and nodes = "[Element (Some (str ''paragraph'')) () [Text (str ''hi'') ()]]"
      and frags = \<open>[Some (str ''<p style="width:100%">hi</p>'')]\<close>]
  by (simp add: serialize_simps plugin_simps markup_simps uri_simps)

section \<open>The data attribute strip\<close>



lemma matchSlateAttribute_nospace:
  "c \<noteq> 0x20 \<Longrightarrow> matchSlateAttribute (c # rest) = None"
  by (simp add: matchSlateAttribute_def matchQuoted_def str_def)

lemma matchTestidAttribute_nospace:
  "c \<noteq> 0x20 \<Longrightarrow> matchTestidAttribute (c # rest) = None"
  by (simp add: matchTestidAttribute_def matchQuoted_def str_def)

lemma replaceSlate_nospace:
  "\<forall>c \<in> set x. c \<noteq> 0x20
   \<Longrightarrow> replaceMatches matchSlateAttribute (x @ rest) = x @ replaceMatches matchSlateAttribute rest"
  by (induction x) (simp_all add: matchSlateAttribute_nospace)

lemma strip_nospace:
  "c \<noteq> 0x20 \<Longrightarrow> stripSlateDataAttributes (c # rest) = c # stripSlateDataAttributes rest"
  by (simp add: stripSlateDataAttributes_def matchSlateAttribute_nospace matchTestidAttribute_nospace)




lemma replaceSlate_testid:
  assumes "0x20 \<notin> set v"
  shows "replaceMatches matchSlateAttribute (attributeText (str ''data-testid'') v @ rest)
     = attributeText (str ''data-testid'') v @ replaceMatches matchSlateAttribute rest"
proof -
  have e: \<open>attributeText (str ''data-testid'') v = 0x20 # (str ''data-testid="'' @ v @ [0x22])\<close>
    by (simp add: attributeText_def str_def)
  have ns: \<open>\<forall>c \<in> set (str ''data-testid="'' @ v @ [0x22]). c \<noteq> 0x20\<close>
    using assms by (auto simp: str_def)
  have m: \<open>matchSlateAttribute (0x20 # (str ''data-testid="'' @ v @ [0x22]) @ rest) = None\<close>
    by (simp add: matchSlateAttribute_def matchQuoted_def str_def)
  show ?thesis
    unfolding e using m replaceSlate_nospace [OF ns, of rest] by simp
qed







lemma opensNowhere_nospace:
  "0x20 \<notin> set x \<Longrightarrow> opensNowhere x"
  by (induction x) (auto simp: opensAttribute_def attributeOpeners_def str_def)






text \<open>
  The value of a \<open>data-testid\<close> attribute in which another attribute opens: the first
  scan removes its match, from the opener inside the value to the next quote, and the
  second scan then ends the \<open>data-testid\<close> attribute at a later quote.
\<close>

theorem strip_value_opener_example:
  \<open>stripSlateDataAttributes (str '' data-testid="a data-slate-node="b" c="d"'') = str ''d"''\<close>
  by (simp add: markup_simps uri_simps)

section \<open>Decoding what was encoded\<close>

lemma of_nat_unat16: "of_nat (unat (c :: jschar)) = c"
  by simp

lemma unat_of_nat16: "n < 65536 \<Longrightarrow> unat (of_nat n :: jschar) = n"
  by (simp add: unat_of_nat)

lemma unat_hexDigit:
  "d < 16 \<Longrightarrow> unat (hexDigit d) = (if d < 10 then 48 + d else 55 + d)"
  unfolding hexDigit_def by (simp add: unat_of_nat16 del: of_nat_add of_nat_numeral)

lemma hexValue_hexDigit: "d < 16 \<Longrightarrow> hexValue (hexDigit d) = Some d"
  by (simp add: hexValue_def Let_def unat_hexDigit)

lemma parseHexOctet_percent:
  "b < 256 \<Longrightarrow> parseHexOctet (hexDigit (b div 16) # hexDigit (b mod 16) # r) = Some (b, r)"
  by (simp add: hexValue_hexDigit)

lemma parseHexOctet_append:
  "parseHexOctet s = Some (b, rest) \<Longrightarrow> parseHexOctet (s @ t) = Some (b, rest @ t)"
  by (induction s rule: parseHexOctet.induct) (auto split: option.splits)

lemma readOctets_append:
  "readOctets n s = Some (bs, rest) \<Longrightarrow> readOctets n (s @ t) = Some (bs, rest @ t)"
proof (induction n s arbitrary: bs rest rule: readOctets.induct)
  case (3 n c cs)
  from "3.prems" obtain b r bs' where c: "c = 0x25" and p: "parseHexOctet cs = Some (b, r)"
    and ro: "readOctets n r = Some (bs', rest)" and bs: "bs = b # bs'"
    by (auto split: if_splits option.splits prod.splits)
  have "readOctets n (r @ t) = Some (bs', rest @ t)"
    using "3.IH" [OF _ p refl ro] c by simp
  then show ?case
    using c bs by (simp add: parseHexOctet_append [OF p])
qed auto


lemma decodeURIComponent_append:
  "decodeURIComponent s = Inr d
   \<Longrightarrow> decodeURIComponent (s @ t) = bindE (decodeURIComponent t) (\<lambda>r. Inr (d @ r))"
proof (induction s arbitrary: d rule: decodeURIComponent.induct)
  case 1
  then show ?case
    by (simp add: bindE_def split: sum.splits)
next
  case (2 c cs)
  show ?case
  proof (cases "c \<noteq> 0x25")
    case True
    with "2.prems" obtain r where r: "decodeURIComponent cs = Inr r" and d: "d = c # r"
      by (auto simp: bindE_def split: sum.splits)
    show ?thesis
      using True "2.IH"(1) [OF True r] d by (simp add: bindE_def split: sum.splits)
  next
    case False
    with "2.prems" obtain b rest where p: "parseHexOctet cs = Some (b, rest)"
      by (auto split: option.splits)
    note pa = parseHexOctet_append [OF p, of t]
    show ?thesis
    proof (cases "leadingOnes b = 0")
      case True
      with "2.prems" False p obtain r where r: "decodeURIComponent rest = Inr r"
        and d: "d = of_nat b # r"
        by (auto simp: bindE_def split: sum.splits)
      show ?thesis
        using False True pa "2.IH"(2) [OF _ p refl True r] d
        by (simp add: bindE_def split: sum.splits)
    next
      case nz: False
      with "2.prems" False p obtain bs rest' v r where
        n: "\<not> (leadingOnes b = 1 \<or> 4 < leadingOnes b)"
        and ro: "readOctets (leadingOnes b - 1) rest = Some (bs, rest')"
        and u: "utf8Decode (b # bs) = Some v"
        and r: "decodeURIComponent rest' = Inr r" and d: "d = utf16Encode v @ r"
        by (auto simp: bindE_def split: sum.splits option.splits if_splits prod.splits)
      note roa = readOctets_append [OF ro, of t]
      show ?thesis
        using False nz n pa roa u "2.IH"(3) [OF _ p refl nz n ro refl u r] d
        by (simp add: bindE_def split: sum.splits)
    qed
  qed
qed


lemma readOctets_percent:
  "b < 256 \<Longrightarrow> readOctets (Suc n) (percentOctet b @ s) =
     (case readOctets n s of None \<Rightarrow> None | Some (bs, rest) \<Rightarrow> Some (b # bs, rest))"
  by (simp add: percentOctet_def parseHexOctet_percent del: parseHexOctet.simps)

lemma decode_percentOctet:
  "b < 256 \<Longrightarrow> decodeURIComponent (percentOctet b @ s) =
     (if leadingOnes b = 0 then bindE (decodeURIComponent s) (\<lambda>r. Inr (of_nat b # r))
      else if leadingOnes b = 1 \<or> 4 < leadingOnes b then Inl URIError
      else case readOctets (leadingOnes b - 1) s of
             None \<Rightarrow> Inl URIError
           | Some (bs, rest') \<Rightarrow>
               (case utf8Decode (b # bs) of
                  None \<Rightarrow> Inl URIError
                | Some v \<Rightarrow> bindE (decodeURIComponent rest') (\<lambda>r. Inr (utf16Encode v @ r))))"
  by (simp add: percentOctet_def parseHexOctet_percent del: parseHexOctet.simps)

lemma decode_two_octets:
  assumes "a < 32" and "c < 64" and "0x80 \<le> a * 64 + c"
  shows "decodeURIComponent (percentOctet (0xC0 + a) @ percentOctet (0x80 + c) @ s)
     = bindE (decodeURIComponent s) (\<lambda>r. Inr (utf16Encode (a * 64 + c) @ r))"
proof -
  have lo: "leadingOnes (0xC0 + a) = 2"
    using assms by (simp add: leadingOnes_def)
  have ro: "readOctets (Suc 0) (percentOctet (0x80 + c) @ s) = Some ([0x80 + c], s)"
    using assms by (simp add: readOctets_percent)
  have u: "utf8Decode [0xC0 + a, 0x80 + c] = Some (a * 64 + c)"
    using assms by (simp add: isContinuation_def)
  show ?thesis
    using assms by (simp add: decode_percentOctet lo ro u del: utf8Decode.simps)
qed

lemma decode_three_octets:
  assumes "a < 16" and "b < 64" and "c < 64" and "0x800 \<le> a * 4096 + b * 64 + c"
    and "\<not> (0xD800 \<le> a * 4096 + b * 64 + c \<and> a * 4096 + b * 64 + c < 0xE000)"
  shows "decodeURIComponent
           (percentOctet (0xE0 + a) @ percentOctet (0x80 + b) @ percentOctet (0x80 + c) @ s)
     = bindE (decodeURIComponent s) (\<lambda>r. Inr (utf16Encode (a * 4096 + b * 64 + c) @ r))"
proof -
  have lo: "leadingOnes (0xE0 + a) = 3"
    using assms by (simp add: leadingOnes_def)
  have ro: "readOctets 2 (percentOctet (0x80 + b) @ percentOctet (0x80 + c) @ s)
      = Some ([0x80 + b, 0x80 + c], s)"
    unfolding numeral_2_eq_2 using assms by (simp add: readOctets_percent)
  have u: "utf8Decode [0xE0 + a, 0x80 + b, 0x80 + c] = Some (a * 4096 + b * 64 + c)"
    using assms by (simp add: isContinuation_def)
  show ?thesis
    using assms(1-3) by (simp add: decode_percentOctet lo ro u del: utf8Decode.simps)
qed

lemma decode_four_octets:
  assumes "a < 8" and "b < 64" and "c < 64" and "d < 64"
    and "0x10000 \<le> a * 262144 + b * 4096 + c * 64 + d"
    and "a * 262144 + b * 4096 + c * 64 + d < 0x110000"
  shows "decodeURIComponent
           (percentOctet (0xF0 + a) @ percentOctet (0x80 + b) @ percentOctet (0x80 + c)
              @ percentOctet (0x80 + d) @ s)
     = bindE (decodeURIComponent s)
         (\<lambda>r. Inr (utf16Encode (a * 262144 + b * 4096 + c * 64 + d) @ r))"
proof -
  have lo: "leadingOnes (0xF0 + a) = 4"
    using assms by (simp add: leadingOnes_def)
  have ro: "readOctets 3 (percentOctet (0x80 + b) @ percentOctet (0x80 + c)
        @ percentOctet (0x80 + d) @ s) = Some ([0x80 + b, 0x80 + c, 0x80 + d], s)"
    unfolding numeral_3_eq_3 using assms by (simp add: readOctets_percent)
  have u: "utf8Decode [0xF0 + a, 0x80 + b, 0x80 + c, 0x80 + d]
      = Some (a * 262144 + b * 4096 + c * 64 + d)"
    using assms by (simp add: isContinuation_def)
  show ?thesis
    using assms(1-4) by (simp add: decode_percentOctet lo ro u del: utf8Decode.simps)
qed


lemma utf8_split3: "(v::nat) div 4096 * 4096 + v div 64 mod 64 * 64 + v mod 64 = v"
proof -
  define q a b c where "q = v div 64" and "a = q div 64" and "b = q mod 64" and "c = v mod 64"
  have 1: "v = q * 64 + c" by (simp add: q_def c_def)
  have 2: "q = a * 64 + b" by (simp add: a_def b_def)
  have 3: "v div 4096 = a" by (simp add: a_def q_def div_mult2_eq [symmetric])
  have "a * 4096 + b * 64 + c = v"
    using 1 2 by simp
  then show ?thesis
    by (simp add: 3 b_def [symmetric, unfolded q_def] c_def [symmetric])
qed

lemma utf8_split4:
  "(v::nat) div 262144 * 262144 + v div 4096 mod 64 * 4096 + v div 64 mod 64 * 64 + v mod 64 = v"
proof -
  have "v div 4096 div 64 = v div 262144" by (simp add: div_mult2_eq [symmetric])
  moreover have "v div 4096 div 64 * 64 + v div 4096 mod 64 = v div 4096" by simp
  ultimately have "v div 262144 * 64 + v div 4096 mod 64 = v div 4096" by simp
  then have "(v div 262144 * 64 + v div 4096 mod 64) * 4096 = v div 4096 * 4096" by simp
  then have "v div 262144 * 262144 + v div 4096 mod 64 * 4096 = v div 4096 * 4096"
    by (simp add: distrib_right)
  then show ?thesis
    using utf8_split3 [of v] by simp
qed

lemma decode_percentEncode:
  assumes "v < 0x110000" and "\<not> (0xD800 \<le> v \<and> v < 0xE000)"
  shows "decodeURIComponent (percentEncode v @ s)
     = bindE (decodeURIComponent s) (\<lambda>r. Inr (utf16Encode v @ r))"
proof -
  consider "v < 0x80" | "0x80 \<le> v" "v < 0x800" | "0x800 \<le> v" "v < 0x10000"
    | "0x10000 \<le> v" by linarith
  then show ?thesis
  proof cases
    case 1
    then show ?thesis
      by (simp add: percentEncode_def utf8Encode_def decode_percentOctet leadingOnes_def
            utf16Encode_def)
  next
    case 2
    have a: "v div 64 < 32"
      using 2 by (simp add: less_mult_imp_div_less)
    have v: "v div 64 * 64 + v mod 64 = v" by simp
    have enc: "percentEncode v = percentOctet (0xC0 + v div 64) @ percentOctet (0x80 + v mod 64) @ []"
      using 2 by (simp add: percentEncode_def utf8Encode_def)
    have "decodeURIComponent (percentOctet (0xC0 + v div 64) @ percentOctet (0x80 + v mod 64) @ s)
        = bindE (decodeURIComponent s) (\<lambda>r. Inr (utf16Encode (v div 64 * 64 + v mod 64) @ r))"
      by (rule decode_two_octets) (use a 2 in simp_all)
    then show ?thesis
      unfolding enc v by simp
  next
    case 3
    have a: "v div 4096 < 16"
      using 3 by (simp add: less_mult_imp_div_less)
    note v = utf8_split3 [of v]
    have enc: "percentEncode v = percentOctet (0xE0 + v div 4096)
        @ percentOctet (0x80 + v div 64 mod 64) @ percentOctet (0x80 + v mod 64) @ []"
      using 3 by (simp add: percentEncode_def utf8Encode_def)
    have "decodeURIComponent (percentOctet (0xE0 + v div 4096)
          @ percentOctet (0x80 + v div 64 mod 64) @ percentOctet (0x80 + v mod 64) @ s)
        = bindE (decodeURIComponent s)
            (\<lambda>r. Inr (utf16Encode (v div 4096 * 4096 + v div 64 mod 64 * 64 + v mod 64) @ r))"
      by (rule decode_three_octets) (use a 3 assms(2) in \<open>simp_all add: v\<close>)
    then show ?thesis
      unfolding enc v by simp
  next
    case 4
    have a: "v div 262144 < 8"
      using assms(1) by (simp add: less_mult_imp_div_less)
    note v = utf8_split4 [of v]
    have enc: "percentEncode v = percentOctet (0xF0 + v div 262144)
        @ percentOctet (0x80 + v div 4096 mod 64) @ percentOctet (0x80 + v div 64 mod 64)
        @ percentOctet (0x80 + v mod 64) @ []"
      using 4 by (simp add: percentEncode_def utf8Encode_def)
    have "decodeURIComponent (percentOctet (0xF0 + v div 262144)
          @ percentOctet (0x80 + v div 4096 mod 64) @ percentOctet (0x80 + v div 64 mod 64)
          @ percentOctet (0x80 + v mod 64) @ s)
        = bindE (decodeURIComponent s)
            (\<lambda>r. Inr (utf16Encode (v div 262144 * 262144 + v div 4096 mod 64 * 4096
                                      + v div 64 mod 64 * 64 + v mod 64) @ r))"
      by (rule decode_four_octets) (use a 4 assms(1) in \<open>simp_all add: v\<close>)
    then show ?thesis
      unfolding enc v by simp
  qed
qed


lemma unat_jschar_less: "unat (c :: jschar) < 65536"
  using unsigned_less [of c, where ?'a = nat] by simp

lemma utf16Encode_unit:
  "\<not> isLeadSurrogate c \<Longrightarrow> \<not> isTrailSurrogate c \<Longrightarrow> utf16Encode (unat c) = [c]"
  using unat_jschar_less [of c] by (simp add: utf16Encode_def)

lemma utf16Encode_pair:
  assumes "isLeadSurrogate c" and "isTrailSurrogate d"
  shows "utf16Encode ((unat c - 0xD800) * 1024 + (unat d - 0xDC00) + 0x10000) = [c, d]"
proof -
  define hi lo where "hi = unat c - 0xD800" and "lo = unat d - 0xDC00"
  have lo: "lo < 1024"
    using assms(2) by (auto simp: lo_def isTrailSurrogate_def)
  have c: "0xD800 + hi = unat c" and d: "0xDC00 + lo = unat d"
    using assms by (auto simp: hi_def lo_def isLeadSurrogate_def isTrailSurrogate_def)
  have "(hi * 1024 + lo) div 1024 = hi" "(hi * 1024 + lo) mod 1024 = lo"
    using lo by simp_all
  then show ?thesis
    unfolding utf16Encode_def hi_def [symmetric] lo_def [symmetric]
    by (simp add: c d del: of_nat_add of_nat_numeral)
qed

lemma pair_code_point:
  assumes "isLeadSurrogate c" and "isTrailSurrogate d"
  shows "(unat c - 0xD800) * 1024 + (unat d - 0xDC00) + 0x10000 < 0x110000"
    and "0x10000 \<le> (unat c - 0xD800) * 1024 + (unat d - 0xDC00) + 0x10000"
proof -
  have "unat c - 0xD800 \<le> 1023" "unat d - 0xDC00 \<le> 1023"
    using assms by (auto simp: isLeadSurrogate_def isTrailSurrogate_def)
  then have "(unat c - 0xD800) * 1024 \<le> 1023 * 1024" "unat d - 0xDC00 \<le> 1023"
    by simp_all
  then show "(unat c - 0xD800) * 1024 + (unat d - 0xDC00) + 0x10000 < 0x110000"
    by linarith
  show "0x10000 \<le> (unat c - 0xD800) * 1024 + (unat d - 0xDC00) + 0x10000"
    by simp
qed

lemma uriUnescaped_not_percent: "uriUnescaped c \<Longrightarrow> c \<noteq> 0x25"
  by (auto simp: uriUnescaped_def)

lemma decode_encode:
  "encodeURIComponent s = Inr e \<Longrightarrow> decodeURIComponent e = Inr s"
proof (induction s arbitrary: e rule: encodeURIComponent.induct)
  case 1
  then show ?case by simp
next
  case (2 c cs)
  show ?case
  proof (cases "uriUnescaped c")
    case True
    with "2.prems" obtain r where r: "encodeURIComponent cs = Inr r" and e: "e = c # r"
      by (auto simp: bindE_def split: sum.splits)
    show ?thesis
      using "2.IH"(1) [OF True r] uriUnescaped_not_percent [OF True]
      by (simp add: e bindE_def)
  next
    case False
    with "2.prems" have nt: "\<not> isTrailSurrogate c"
      by (auto split: if_splits)
    show ?thesis
    proof (cases "isLeadSurrogate c")
      case True
      with "2.prems" False nt obtain d ds r where cs: "cs = d # ds" and td: "isTrailSurrogate d"
        and r: "encodeURIComponent ds = Inr r"
        and e: "e = percentEncode ((unat c - 0xD800) * 1024 + (unat d - 0xDC00) + 0x10000) @ r"
        by (auto simp: bindE_def split: sum.splits list.splits if_splits)
      have ih: "decodeURIComponent r = Inr ds"
        using "2.IH"(2) [OF False nt True cs td r] .
      have "decodeURIComponent e
          = bindE (decodeURIComponent r)
              (\<lambda>r'. Inr (utf16Encode ((unat c - 0xD800) * 1024 + (unat d - 0xDC00) + 0x10000) @ r'))"
        unfolding e using pair_code_point [OF True td]
        by (intro decode_percentEncode) simp_all
      then show ?thesis
        by (simp add: ih bindE_def utf16Encode_pair [OF True td] cs)
    next
      case nl: False
      with "2.prems" False nt obtain r where r: "encodeURIComponent cs = Inr r"
        and e: "e = percentEncode (unat c) @ r"
        by (auto simp: bindE_def split: sum.splits)
      have ih: "decodeURIComponent r = Inr cs"
        using "2.IH"(3) [OF False nt nl r] .
      have "decodeURIComponent e
          = bindE (decodeURIComponent r) (\<lambda>r'. Inr (utf16Encode (unat c) @ r'))"
        unfolding e using unat_jschar_less [of c] nt nl
        by (intro decode_percentEncode) (auto simp: isLeadSurrogate_def isTrailSurrogate_def)
      then show ?thesis
        by (simp add: ih bindE_def utf16Encode_unit [OF nl nt])
    qed
  qed
qed

section \<open>A node among its siblings\<close>



lemma decodable_append:
  assumes "decodeURIComponent x = Inr dx" and "decodeURIComponent y = Inr dy"
  shows "decodeURIComponent (x @ y) = Inr (dx @ dy)"
  by (simp add: decodeURIComponent_append [OF assms(1)] assms(2) bindE_def)

lemma node_among_siblings:
  assumes "serializeNodes R ed ps sp pcn sw left = Inr fl"
    and "decodeURIComponent (joinFragments fl) = Inr dl"
    and "serializeNodes R ed ps sp pcn sw right = Inr fr"
    and "decodeURIComponent (joinFragments fr) = Inr dr"
    and "serializeNode R ed ps sp pcn sw n = Inr (Some h)"
    and "decodeURIComponent h = Inr dh"
  shows "serializeHTMLFromNodes R ed ps sp sda pcn sw (left @ n # right)
     = Inr (stripPasses sw sda (dl @ dh @ dr))"
proof -
  have frags: "serializeNodes R ed ps sp pcn sw (left @ n # right) = Inr (fl @ Some h # fr)"
    by (simp add: serializeNodes_append assms(1,3,5) bindE_def del: serializeNode.simps)
  have "decodeURIComponent (joinFragments (fl @ Some h # fr)) = Inr (dl @ dh @ dr)"
    by (simp add: joinFragments_append joinFragments_Cons
          decodable_append [OF assms(2) decodable_append [OF assms(6) assms(4)]])
  then show ?thesis
    by (simp add: serializeHTMLFromNodes.simps frags bindE_def postProcess_passes
          decodedOnce_decodes del: serializeNode.simps)
qed



lemma element_among_siblings:
  assumes "serializeNodes R ed ps sp pcn sw left = Inr fl"
    and "decodeURIComponent (joinFragments fl) = Inr dl"
    and "serializeNodes R ed ps sp pcn sw right = Inr fr"
    and "decodeURIComponent (joinFragments fr) = Inr dr"
    and "serializeHTMLFromNodes R ed ps None True pcn sw cs = Inr inner"
    and "encodeURIComponent inner = Inr enc"
    and "getNode R ed ps
           \<lparr>node = Element ty b cs, children = enc,
            attributes = [(str ''data-slate-node'', JSString (str ''element'')),
                          (str ''ref'', JSNull)]\<rparr>
           sp pcn = Some (wpre @ enc @ wpost)"
    and "decodeURIComponent wpre = Inr dwpre"
    and "decodeURIComponent wpost = Inr dwpost"
  shows "serializeHTMLFromNodes R ed ps sp sda pcn sw (left @ Element ty b cs # right)
     = Inr (stripPasses sw sda (dl @ dwpre @ inner @ dwpost @ dr))"
proof -
  have f: "serializeNode R ed ps sp pcn sw (Element ty b cs) = Inr (Some (wpre @ enc @ wpost))"
    by (simp add: assms(5,6,7) bindE_def)
  have d: "decodeURIComponent (wpre @ enc @ wpost) = Inr (dwpre @ inner @ dwpost)"
    by (rule decodable_append [OF assms(8) decodable_append [OF decode_encode [OF assms(6)] assms(9)]])
  show ?thesis
    using node_among_siblings [OF assms(1,2,3,4) f d] by simp
qed

lemma decode_div_open: "decodeURIComponent (str ''<div>'') = Inr (str ''<div>'')"
  by (simp add: uri_simps)

lemma decode_div_close: "decodeURIComponent (str ''</div>'') = Inr (str ''</div>'')"
  by (simp add: uri_simps)

section \<open>Where the passes run\<close>

lemma matchQuoted_no_quote:
  "0x22 \<notin> set s \<Longrightarrow> matchQuoted lit least s = None"
proof -
  assume "0x22 \<notin> set s"
  then have "0x22 \<notin> set (drop (length lit) s)"
    by (meson in_set_dropD)
  then have "\<forall>x \<in> set (drop (length lit) s). x \<noteq> 0x22"
    by metis
  then have tw: "length (takeWhile (\<lambda>c. c \<noteq> 0x22) (drop (length lit) s)) = length s - length lit"
    by (simp only: takeWhile_eq_all_conv [THEN iffD2] length_drop)
  show ?thesis
    unfolding matchQuoted_def Let_def tw by simp
qed

text \<open>The data attribute strip changes nothing in a string without a double quote.\<close>

lemma strip_no_quote:
  "0x22 \<notin> set s \<Longrightarrow> stripSlateDataAttributes s = s"
proof -
  assume q: "0x22 \<notin> set s"
  have "replaceMatches matchSlateAttribute s = s" "replaceMatches matchTestidAttribute s = s"
    using q
    by (induction s)
       (simp_all add: matchSlateAttribute_def matchTestidAttribute_def matchQuoted_no_quote)
  then show ?thesis
    by (simp add: stripSlateDataAttributes_def)
qed

text \<open>
  Claim C2, as amended. The decode pass and the white space strip run at the end of
  every call of serializeHTMLFromNodes, on the joined fragments of that call: at the
  outermost call, and in each recursive call that serializes the children of an
  element, with the option \<open>stripWhitespace\<close> threaded down. The children string given
  to getNode is the encoding of the children's joined fragments decoded if needed and
  stripped of white space; so the output for an element without a type is the passes of
  the outer call applied to the plain wrapper around the result of the passes of the
  inner call. The statement is for children whose output the data attribute strip
  leaves as it is, as it does every string without a double quote.
\<close>

theorem passes_in_every_call:
  "(serializeNodes render editor plugins slateProps pcn stripWhitespace nodes = Inr frags
    \<longrightarrow> serializeHTMLFromNodes render editor plugins slateProps stripDataAttributes pcn
          stripWhitespace nodes
        = Inr (stripPasses stripWhitespace stripDataAttributes (decodedOnce (joinFragments frags))))
   \<and> (serializeNodes render editor plugins None pcn stripWhitespace cs = Inr cfrags
      \<and> r = stripPasses stripWhitespace False (decodedOnce (joinFragments cfrags))
      \<and> stripSlateDataAttributes r = r
      \<longrightarrow> serializeNode render editor plugins slateProps pcn stripWhitespace (Element ty a cs)
          = bindE (encodeURIComponent r) (\<lambda>c.
              Inr (getNode render editor plugins
                     \<lparr>node = Element ty a cs, children = c,
                      attributes = [(str ''data-slate-node'', JSString (str ''element'')),
                                    (str ''ref'', JSNull)]\<rparr>
                     slateProps pcn))
        \<and> (\<forall>c. encodeURIComponent r = Inr c
             \<longrightarrow> serializeHTMLFromNodes render editor plugins slateProps stripDataAttributes pcn
                   stripWhitespace [Element None a cs]
                 = Inr (stripPasses stripWhitespace stripDataAttributes (divWrapper r))))"
proof (intro conjI impI allI)
  assume "serializeNodes render editor plugins slateProps pcn stripWhitespace nodes = Inr frags"
  then show "serializeHTMLFromNodes render editor plugins slateProps stripDataAttributes pcn
      stripWhitespace nodes
    = Inr (stripPasses stripWhitespace stripDataAttributes (decodedOnce (joinFragments frags)))"
    by (simp add: serializeHTMLFromNodes.simps bindE_def postProcess_passes)
next
  assume a: "serializeNodes render editor plugins None pcn stripWhitespace cs = Inr cfrags
      \<and> r = stripPasses stripWhitespace False (decodedOnce (joinFragments cfrags))
      \<and> stripSlateDataAttributes r = r"
  then have "stripPasses stripWhitespace True (decodedOnce (joinFragments cfrags)) = r"
    by (auto simp: stripPasses_def)
  then have inner: "serializeHTMLFromNodes render editor plugins None True pcn stripWhitespace cs
      = Inr r"
    using a by (simp add: serializeHTMLFromNodes.simps bindE_def postProcess_passes)
  show "serializeNode render editor plugins slateProps pcn stripWhitespace (Element ty a cs)
      = bindE (encodeURIComponent r) (\<lambda>c.
          Inr (getNode render editor plugins
                 \<lparr>node = Element ty a cs, children = c,
                  attributes = [(str ''data-slate-node'', JSString (str ''element'')),
                                (str ''ref'', JSNull)]\<rparr>
                 slateProps pcn))"
    by (simp add: inner bindE_def)
  fix c
  assume c: "encodeURIComponent r = Inr c"
  have g: "getNode render editor plugins
      \<lparr>node = Element None a cs, children = c,
       attributes = [(str ''data-slate-node'', JSString (str ''element'')), (str ''ref'', JSNull)]\<rparr>
      slateProps pcn = Some (str ''<div>'' @ c @ str ''</div>'')"
    by (simp add: getNode_def falsy_def divWrapper_def)
  have e: "serializeNodes render editor plugins slateProps pcn stripWhitespace [] = Inr []"
    "decodeURIComponent (joinFragments []) = Inr []"
    by (simp_all add: joinFragments_def)
  show "serializeHTMLFromNodes render editor plugins slateProps stripDataAttributes pcn
      stripWhitespace [Element None a cs]
    = Inr (stripPasses stripWhitespace stripDataAttributes (divWrapper r))"
    using element_among_siblings [OF e e inner c g decode_div_open decode_div_close,
        of stripDataAttributes]
    by (simp add: divWrapper_def)
qed

theorem passes_in_every_call_witness:
  "serializeHTMLFromNodes staticMarkup () [] None True None True
       [Text (str ''a'' @ [0x09] @ str ''b'') ()] = Inr (str ''ab'')
   \<and> serializeNode staticMarkup () [] None None True
       (Element None () [Text (str ''a'' @ [0x09] @ str ''b'') ()])
     = Inr (Some (str ''<div>ab</div>''))
   \<and> serializeHTMLFromNodes staticMarkup () [] None True None True
       [Element None () [Text (str ''a'' @ [0x09] @ str ''b'') ()]] = Inr (str ''<div>ab</div>'')"
  using passes_in_every_call [where render = staticMarkup and editor = "()"
      and plugins = "[]" and pcn = None and stripWhitespace = True and stripDataAttributes = True
      and nodes = "[Text (str ''a'' @ [0x09] @ str ''b'') ()]" and frags = "[Some (str ''a%09b'')]"
      and cs = "[Text (str ''a'' @ [0x09] @ str ''b'') ()]" and cfrags = "[Some (str ''a%09b'')]"
      and r = "str ''ab''" and slateProps = None and ty = None and a = "()"]
  by (simp add: decodedOnce_def stripPasses_def serialize_simps plugin_simps markup_simps uri_simps)

text \<open>
  Claim C2 as stated fails with the default options and no plugin: the recursive call
  for the children decodes their joined fragments, and the outermost call decodes once
  more. Were the passes applied at the outermost call only, the space of the leaf would
  remain encoded in the output.
\<close>

theorem postprocess_once_counterexample:
  "serializeHTMLFromNodes staticMarkup () [] None True None True
     [Element None () [Text (str ''a b'') ()]] = Inr (str ''<div>a b</div>'')
   \<and> serializeOnceAtTop staticMarkup () [] None True None True
     [Element None () [Text (str ''a b'') ()]] = Inr (str ''<div>a%20b</div>'')
   \<and> serializeHTMLFromNodes staticMarkup () [] None True None True
       [Element None () [Text (str ''a b'') ()]]
     \<noteq> serializeOnceAtTop staticMarkup () [] None True None True
       [Element None () [Text (str ''a b'') ()]]"
  by (simp add: serializeOnceAtTop_def serialize_simps plugin_simps markup_simps uri_simps)

section \<open>The text of a leaf\<close>




text \<open>
  The conditions on a decorated leaf. The class filter runs on the decoded markup of
  the leaf, and removes from a text that was encoded already what reads as a class
  attribute. The rendering library escapes the children it is given, an apostrophe
  among them. A text that is encoded already and holds a lone surrogate is serialized
  as long as no plugin decorates the leaf, and makes encodeURIComponent throw when one
  does.
\<close>

theorem leaf_class_text_example:
  \<open>serializeHTMLFromNodes staticMarkup () [leafPlugin (str ''b'')] None True None True
       [Text (str ''%41 class="x"'') ()] = Inr (str ''<b>A </b>'')\<close>
  by (simp add: serialize_simps plugin_simps markup_simps uri_simps)

theorem leaf_escaped_example:
  \<open>serializeHTMLFromNodes staticMarkup () [leafPlugin (str ''b'')] None True None True
       [Text (str ''it'' @ [0x27] @ str ''s'') ()] = Inr (str ''<b>it&#x27;s</b>'')\<close>
  by (simp add: serialize_simps plugin_simps markup_simps uri_simps)

theorem leaf_surrogate_example:
  "serializeHTMLFromNodes staticMarkup () [] None True None True
       [Text (str ''%41'' @ [0xD800]) ()] = Inr (str ''A'' @ [0xD800])
   \<and> serializeHTMLFromNodes staticMarkup () [leafPlugin (str ''b'')] None True None True
       [Text (str ''%41'' @ [0xD800]) ()] = Inl URIError"
  by (simp add: serialize_simps plugin_simps markup_simps uri_simps)

section \<open>Sibling nodes\<close>




text \<open>
  The condition of the theorem holds of every node when no plugin renders elements or
  leaves: the fragments are then encoded text and plain wrappers around encoded children.
\<close>

lemma plain_fragments_decodable:
  assumes "list_all (\<lambda>p. \<not> leafCapable p \<and> \<not> elementCapable p) ps"
  shows "fragmentDecodable (serializeNode R ed ps sp pcn sw n)"
proof (cases n)
  case (Text t a)
  show ?thesis
  proof (cases "if isEncoded t then Inr t else encodeURIComponent t")
    case (Inl e)
    then show ?thesis
      by (simp add: Text fragmentDecodable_def bindE_def)
  next
    case (Inr c)
    have "leafUndecorated ed ps
        \<lparr>node = Text t a, children = c, attributes = [(str ''data-slate-leaf'', JSBool True)]\<rparr>"
      using assms unfolding leafUndecorated_def by (induction ps) auto
    then have frag: "serializeNode R ed ps sp pcn sw n = Inr (Some c)"
      by (simp add: Text Inr getLeaf_undecorated bindE_def)
    have "decodable c"
    proof (cases "isEncoded t")
      case True
      with Inr show ?thesis
        by (auto simp: isEncoded_def decodable_def split: sum.splits)
    next
      case False
      with Inr have "decodeURIComponent c = Inr t"
        by (auto intro: decode_encode)
      then show ?thesis
        by (simp add: decodable_def)
    qed
    then show ?thesis
      by (simp add: frag fragmentDecodable_def)
  qed
next
  case (Element ty a cs)
  show ?thesis
  proof (cases "serializeHTMLFromNodes R ed ps None True pcn sw cs")
    case (Inl e)
    then show ?thesis
      by (simp add: Element fragmentDecodable_def bindE_def)
  next
    case inner: (Inr i)
    show ?thesis
    proof (cases "encodeURIComponent i")
      case (Inl e)
      then show ?thesis
        by (simp add: Element inner fragmentDecodable_def bindE_def)
    next
      case (Inr c)
      have nocap: "\<not> list_ex elementCapable ps"
        "find (\<lambda>p. elementCapable p \<and> P p) ps = None" for P
        using assms by (induction ps) auto
      have d: "decodeURIComponent c = Inr i"
        using Inr by (rule decode_encode)
      have lit: "decodeURIComponent (str ''<div>'') = Inr (str ''<div>'')"
        "decodeURIComponent (str ''</div>'') = Inr (str ''</div>'')"
        by (simp_all add: str_def bindE_def)
      have "decodable (divWrapper c)"
        unfolding divWrapper_def decodable_def
        by (simp add: decodable_append [OF lit(1) decodable_append [OF d lit(2)]])
      then show ?thesis
        by (simp add: Element inner Inr fragmentDecodable_def bindE_def getNode_def
              scanPlugins_find nocap)
    qed
  qed
qed



text \<open>
  The condition on the fragments. The markup of the element holds the attribute value
  \<open>100%\<close> and does not decode; serialized with it, the leaf keeps the encoding that the
  serializer has added, which serializing the leaf alone removes.
\<close>

theorem siblings_undecodable_counterexample:
  \<open>serializeHTMLFromNodes staticMarkup ()
     [elementPlugin (str ''p'') [(str ''title'', str ''100%'')] [str ''paragraph'']]
     None False None True
     [Element (Some (str ''paragraph'')) () [Text (str ''hi'') ()], Text (str ''a b'') ()]
     = Inr (str ''<p title="100%">hi</p>a%20b'')
   \<and> concatE (map (\<lambda>n. serializeHTMLFromNodes staticMarkup ()
                      [elementPlugin (str ''p'') [(str ''title'', str ''100%'')] [str ''paragraph'']]
                      None False None True [n])
       [Element (Some (str ''paragraph'')) () [Text (str ''hi'') ()], Text (str ''a b'') ()])
     = Inr (str ''<p title="100%">hi</p>a b'')\<close>
  by (simp add: serialize_simps plugin_simps markup_simps uri_simps)

end
